theory Spec2Isabelle
  imports Complex_Main "HOL-Library.Word" "HOL-Library.Signed_Division"
begin

text \<open>
  A model of the request-serving core of the Copilot proxy (the token lifecycle of the
  auth service, the coalescing cache, the circuit breaker, the worker pool and the proxy
  handler with its retry loop), with the properties that its specification states of
  them. Network exchanges, clocks and contexts are inputs of the model: each function
  takes an environment that says what the outside answers, and returns what the function
  did to the outside as a list of events.
\<close>

section \<open>Strings and error values\<close>

text \<open>
  Go strings and byte slices are sequences of octets; both are modelled as \<open>char list\<close>
  (an Isabelle \<open>char\<close> is one octet), so \<open>[]byte(s)\<close> is the identity.
\<close>

type_synonym bytes = string

text \<open>\<open>strings.HasPrefix\<close> and \<open>strings.Contains\<close> of the Go standard library.\<close>

fun HasPrefix :: "string \<Rightarrow> string \<Rightarrow> bool" where
  "HasPrefix s [] = True"
| "HasPrefix [] (p # ps) = False"
| "HasPrefix (c # cs) (p # ps) = (c = p \<and> HasPrefix cs ps)"

fun Contains :: "string \<Rightarrow> string \<Rightarrow> bool" where
  "Contains [] sub = (sub = [])"
| "Contains (c # cs) sub = (HasPrefix (c # cs) sub \<or> Contains cs sub)"

text \<open>
  The value of \<open>ctx.Err()\<close> once a context is done.
\<close>

datatype ctx_reason = Canceled | DeadlineExceeded

text \<open>
  Error values. \<open>Err\<close> is an error of the standard library or of \<open>fmt.Errorf\<close> without a
  wrapped cause, given by its text; \<open>Wrap p e\<close> is \<open>fmt.Errorf(p + "%w", e)\<close>;
  \<open>AuthError\<close>, \<open>ProxyError\<close> and \<open>NetworkError\<close> are the values built by
  \<open>NewAuthError\<close>, \<open>NewProxyError\<close> and \<open>NewNetworkError\<close>, with their arguments.
\<close>

datatype go_error =
    Err string
  | Wrap string go_error
  | AuthError string "go_error option"
  | ProxyError string string "go_error option"
  | NetworkError string string string "go_error option"
  | ContextErr ctx_reason

text \<open>
  The file that declares the three error types and their \<open>Error()\<close> methods is not among
  the sources, so the three renderings are parameters of the model: each takes the
  constructor's string arguments and the text of the cause, if any.
\<close>

record errfmt =
  authText :: "string \<Rightarrow> string option \<Rightarrow> string"
  proxyText :: "string \<Rightarrow> string \<Rightarrow> string option \<Rightarrow> string"
  networkText :: "string \<Rightarrow> string \<Rightarrow> string \<Rightarrow> string option \<Rightarrow> string"

fun ctxText :: "ctx_reason \<Rightarrow> string" where
  "ctxText Canceled = ''context canceled''"
| "ctxText DeadlineExceeded = ''context deadline exceeded''"

fun Error :: "errfmt \<Rightarrow> go_error \<Rightarrow> string" where
  "Error f (Err s) = s"
| "Error f (Wrap p e) = p @ Error f e"
| "Error f (AuthError m c) = authText f m (map_option (Error f) c)"
| "Error f (ProxyError op m c) = proxyText f op m (map_option (Error f) c)"
| "Error f (NetworkError op url m c) = networkText f op url m (map_option (Error f) c)"
| "Error f (ContextErr r) = ctxText r"

text \<open>The text of a cause after a message: nothing, or a colon and the cause.\<close>

fun causeSuffix :: "string option \<Rightarrow> string" where
  "causeSuffix None = []"
| "causeSuffix (Some c) = '': '' @ c"

text \<open>
  Modelled from the spec: the \<open>Error()\<close> methods of \<open>AuthError\<close>, \<open>ProxyError\<close> and
  \<open>NetworkError\<close>, whose source file is missing. The spec says that the proxy handler
  recognises an authentication failure by the substring \<open>authentication error\<close> and that
  the message given to an \<open>AuthError\<close> can be found in the text of the error; the
  renderings below put the kind first, then the message, then the cause. They only
  instantiate the parameter at concrete inputs.
\<close>

definition specErrfmt :: errfmt where
  "specErrfmt =
     \<lparr> authText = (\<lambda>m c. ''authentication error: '' @ m @ causeSuffix c),
       proxyText = (\<lambda>op m c. ''proxy error: '' @ op @ '': '' @ m @ causeSuffix c),
       networkText = (\<lambda>op url m c. ''network error: '' @ op @ '' '' @ url @ '': '' @ m @ causeSuffix c) \<rparr>"

section \<open>Request coalescing: the key\<close>

text \<open>
  The \<open>body interface{}\<close> argument of \<open>GetRequestKey\<close>: nil, a \<open>[]byte\<close>, or a value of
  any other dynamic type (represented by a printable form, which the code never reads).
\<close>

datatype iface = NilValue | ByteSlice bytes | OtherValue string

text \<open>\<open>hex.EncodeToString\<close>: two lower-case hexadecimal digits per octet.\<close>

definition hexDigit :: "nat \<Rightarrow> char" where
  "hexDigit n = ''0123456789abcdef'' ! (n mod 16)"

fun EncodeToString :: "bytes \<Rightarrow> string" where
  "EncodeToString [] = []"
| "EncodeToString (c # cs) =
     hexDigit (of_char c div 16) # hexDigit (of_char c mod 16) # EncodeToString cs"

text \<open>
  The octets that the hash has been given when \<open>h.Sum\<close> is called: \<open>h.Write(method)\<close>,
  \<open>h.Write(url)\<close>, and \<open>h.Write(bodyBytes)\<close> only when the body is non-nil and its
  dynamic type is \<open>[]byte\<close>.
\<close>

fun hashedOctets :: "string \<Rightarrow> string \<Rightarrow> iface \<Rightarrow> bytes" where
  "hashedOctets method url NilValue = method @ url"
| "hashedOctets method url (ByteSlice bodyBytes) = method @ url @ bodyBytes"
| "hashedOctets method url (OtherValue v) = method @ url"

text \<open>
  \<open>GetRequestKey\<close>. SHA-256 is the standard library's; it is the parameter \<open>sha256\<close>, a
  function from the written octets to the digest.
\<close>

definition GetRequestKey :: "(bytes \<Rightarrow> bytes) \<Rightarrow> string \<Rightarrow> string \<Rightarrow> iface \<Rightarrow> string" where
  "GetRequestKey sha256 method url body = EncodeToString (sha256 (hashedOctets method url body))"

section \<open>Request coalescing: \<open>CoalesceRequest\<close> under interleaving\<close>

text \<open>
  A Go channel of capacity one: the buffered values and whether it has been closed.
  Receiving takes the oldest buffered value; on an empty closed channel it yields the
  zero value of the element type (for \<open>interface{}\<close>, nil) at once; on an empty open
  channel it blocks.
\<close>

record chan =
  buffer :: "iface list"
  closedFlag :: bool

text \<open>
  Where one caller of \<open>CoalesceRequest\<close> stands. The two critical sections under
  \<open>cc.mutex\<close> are atomic steps.
\<close>

datatype caller =
    Arriving
  | Waiting nat
  | Executing nat
  | Sending nat iface
  | Closing nat iface
  | Cleaning nat iface
  | Finished iface

text \<open>
  The cache (\<open>requests\<close>, with the channels it refers to held in a store, since waiters
  keep a channel after its key is deleted), the callers, and the callers whose \<open>fn\<close> has
  run. Caller \<open>i\<close> calls \<open>CoalesceRequest (fst (args ! i)) fn\<close> where \<open>fn\<close> returns
  \<open>snd (args ! i)\<close>.
\<close>

record cache =
  requests :: "string \<rightharpoonup> nat"
  channels :: "nat \<Rightarrow> chan"
  nextChan :: nat
  callers :: "caller list"
  invoked :: "nat list"

definition NewCoalescingCache :: "nat \<Rightarrow> cache" where
  "NewCoalescingCache n =
     \<lparr> requests = Map.empty, channels = (\<lambda>_. \<lparr>buffer = [], closedFlag = False\<rparr>),
       nextChan = 0, callers = replicate n Arriving, invoked = [] \<rparr>"

text \<open>One step of caller \<open>i\<close>; a blocked or finished caller does not move.\<close>

fun callerStep :: "(string \<times> iface) list \<Rightarrow> nat \<Rightarrow> caller \<Rightarrow> cache \<Rightarrow> cache" where
  "callerStep args i Arriving cc =
     (case requests cc (fst (args ! i)) of
        Some ch \<Rightarrow> cc\<lparr>callers := (callers cc)[i := Waiting ch]\<rparr>
      | None \<Rightarrow>
          cc\<lparr>requests := (requests cc)(fst (args ! i) \<mapsto> nextChan cc),
             channels := (channels cc)(nextChan cc := \<lparr>buffer = [], closedFlag = False\<rparr>),
             nextChan := Suc (nextChan cc),
             callers := (callers cc)[i := Executing (nextChan cc)]\<rparr>)"
| "callerStep args i (Waiting ch) cc =
     (case buffer (channels cc ch) of
        v # vs \<Rightarrow>
          cc\<lparr>channels := (channels cc)(ch := (channels cc ch)\<lparr>buffer := vs\<rparr>),
             callers := (callers cc)[i := Finished v]\<rparr>
      | [] \<Rightarrow>
          if closedFlag (channels cc ch) then cc\<lparr>callers := (callers cc)[i := Finished NilValue]\<rparr>
          else cc)"
| "callerStep args i (Executing ch) cc =
     cc\<lparr>invoked := invoked cc @ [i], callers := (callers cc)[i := Sending ch (snd (args ! i))]\<rparr>"
| "callerStep args i (Sending ch result) cc =
     (if length (buffer (channels cc ch)) < 1 then
        cc\<lparr>channels := (channels cc)(ch := (channels cc ch)\<lparr>buffer := buffer (channels cc ch) @ [result]\<rparr>),
           callers := (callers cc)[i := Closing ch result]\<rparr>
      else cc)"
| "callerStep args i (Closing ch result) cc =
     cc\<lparr>channels := (channels cc)(ch := (channels cc ch)\<lparr>closedFlag := True\<rparr>),
        callers := (callers cc)[i := Cleaning ch result]\<rparr>"
| "callerStep args i (Cleaning ch result) cc =
     cc\<lparr>requests := (requests cc)(fst (args ! i) := None),
        callers := (callers cc)[i := Finished result]\<rparr>"
| "callerStep args i (Finished v) cc = cc"

definition step :: "(string \<times> iface) list \<Rightarrow> cache \<Rightarrow> nat \<Rightarrow> cache" where
  "step args cc i = (if i < length (callers cc) \<and> i < length args then callerStep args i (callers cc ! i) cc else cc)"

text \<open>A schedule names the caller that moves next.\<close>

definition runSchedule :: "(string \<times> iface) list \<Rightarrow> nat list \<Rightarrow> cache" where
  "runSchedule args schedule = foldl (step args) (NewCoalescingCache (length args)) schedule"

section \<open>Worker pool\<close>

text \<open>
  A call either returns or panics. A job is a \<open>func()\<close>; the model keeps what running it
  does.
\<close>

datatype 'a outcome = Returned 'a | Panicked string

type_synonym job = "unit outcome"

text \<open>
  One worker goroutine of \<open>WorkerPool.start\<close>, given the jobs it receives from
  \<open>jobQueue\<close> in order before \<open>quit\<close> is closed. It calls \<open>job()\<close> with no deferred
  \<open>recover\<close>, so a panic leaves the goroutine (and the Go runtime ends the process).
\<close>

record worker_out =
  served :: nat
  crashed :: "string option"

fun worker :: "job list \<Rightarrow> worker_out" where
  "worker [] = \<lparr>served = 0, crashed = None\<rparr>"
| "worker (Returned u # jobs) = (worker jobs)\<lparr>served := Suc (served (worker jobs))\<rparr>"
| "worker (Panicked v # jobs) = \<lparr>served = 0, crashed = Some v\<rparr>"

text \<open>
  The closure that \<open>ProxyService.Handler\<close> submits: it runs \<open>processProxyRequest\<close> (whose
  outcome is the argument) under a deferred \<open>recover\<close>. The result is what the closure
  itself does as a job and the values it sends on \<open>done\<close>.
\<close>

fun workerClosure :: "go_error option outcome \<Rightarrow> job \<times> go_error option list" where
  "workerClosure (Returned err) = (Returned (), [err])"
| "workerClosure (Panicked v) =
     (Returned (),
      [Some (ProxyError ''request_processing'' ''worker panic during request processing''
               (Some (Err (''panic: '' @ v))))])"

section \<open>Circuit breaker\<close>

datatype CircuitBreakerState = CircuitClosed | CircuitOpen | CircuitHalfOpen

text \<open>
  \<open>failureCount\<close> is an \<open>int64\<close>. Instants and durations are integers in nanoseconds;
  \<open>time.Since t\<close> at the instant \<open>now\<close> is \<open>now - t\<close>.
\<close>

record CircuitBreaker =
  failureCount :: "64 word"
  lastFailureTime :: int
  state :: CircuitBreakerState
  timeout :: int

abbreviation (input) circuitBreakerFailureThreshold :: "64 word" where
  "circuitBreakerFailureThreshold \<equiv> 5"

text \<open>The breaker that \<open>NewProxyService\<close> builds: closed, every other field zero.\<close>

definition newCircuitBreaker :: "int \<Rightarrow> CircuitBreaker" where
  "newCircuitBreaker t = \<lparr>failureCount = 0, lastFailureTime = 0, state = CircuitClosed, timeout = t\<rparr>"

definition canExecute :: "int \<Rightarrow> CircuitBreaker \<Rightarrow> bool \<times> CircuitBreaker" where
  "canExecute now cb =
     (if state cb = CircuitClosed then (True, cb)
      else if state cb = CircuitOpen then
        (if now - lastFailureTime cb > timeout cb then (True, cb\<lparr>state := CircuitHalfOpen\<rparr>)
         else (False, cb))
      else (True, cb))"

definition onSuccess :: "CircuitBreaker \<Rightarrow> CircuitBreaker" where
  "onSuccess cb = cb\<lparr>failureCount := 0, state := CircuitClosed\<rparr>"

definition onFailure :: "int \<Rightarrow> CircuitBreaker \<Rightarrow> CircuitBreaker" where
  "onFailure now cb =
     (let cb' = cb\<lparr>failureCount := failureCount cb + 1, lastFailureTime := now\<rparr>
      in if circuitBreakerFailureThreshold \<le>s failureCount cb' then cb'\<lparr>state := CircuitOpen\<rparr> else cb')"

text \<open>
  What reaches the breaker: an admission check and a recorded failure carry the instant
  at which they happen.
\<close>

datatype cb_event = Admission int | RecordSuccess | RecordFailure int

fun applyEvent :: "CircuitBreaker \<Rightarrow> cb_event \<Rightarrow> CircuitBreaker" where
  "applyEvent cb (Admission now) = snd (canExecute now cb)"
| "applyEvent cb RecordSuccess = onSuccess cb"
| "applyEvent cb (RecordFailure now) = onFailure now cb"

definition runBreaker :: "int \<Rightarrow> cb_event list \<Rightarrow> CircuitBreaker" where
  "runBreaker t es = foldl applyEvent (newCircuitBreaker t) es"

text \<open>
  In the words of the specification: the number of failures recorded since the last
  recorded success (admission checks do not count).
\<close>

fun countEvent :: "nat \<Rightarrow> cb_event \<Rightarrow> nat" where
  "countEvent n (Admission now) = n"
| "countEvent n RecordSuccess = 0"
| "countEvent n (RecordFailure now) = Suc n"

definition consecutiveFailures :: "cb_event list \<Rightarrow> nat" where
  "consecutiveFailures es = foldl countEvent 0 es"

section \<open>Proxy: retry loop\<close>

abbreviation (input) maxChatRetries :: nat where "maxChatRetries \<equiv> 3"
abbreviation (input) baseChatRetryDelay :: nat where "baseChatRetryDelay \<equiv> 1"
abbreviation (input) maxRequestBodySize :: nat where "maxRequestBodySize \<equiv> 5 * 1024 * 1024"
abbreviation (input) statusCodeServerError :: int where "statusCodeServerError \<equiv> 500"
abbreviation (input) statusCodeTooManyRequests :: int where "statusCodeTooManyRequests \<equiv> 429"
abbreviation (input) statusCodeRequestTimeout :: int where "statusCodeRequestTimeout \<equiv> 408"

definition isRetriableError :: "int \<Rightarrow> go_error option \<Rightarrow> bool" where
  "isRetriableError statusCode err =
     (case err of
        Some e \<Rightarrow> True
      | None \<Rightarrow> statusCode \<ge> statusCodeServerError \<or> statusCode = statusCodeTooManyRequests
                  \<or> statusCode = statusCodeRequestTimeout)"

text \<open>
  What one attempt meets: \<open>httpClient.Do\<close> fails, or a response arrives (its status
  code). \<open>http.NewRequestWithContext\<close> is given the method and the URL of a request that
  was itself built from them, and does not fail. The environment of the loop gives the
  outcome of each attempt, whether the request's context is done before the timer of the
  wait after that attempt fires, and the error the context then reports.
\<close>

datatype attempt = TransportError go_error | Response int

record upstream =
  attemptOutcome :: "nat \<Rightarrow> attempt"
  ctxDoneInWait :: "nat \<Rightarrow> bool"
  ctxErr :: ctx_reason

text \<open>
  What the loop does to the outside: \<open>Do n\<close> is the call of \<open>httpClient.Do\<close> in attempt
  \<open>n\<close>; a wait of so many seconds ends with its timer or with the context.
\<close>

datatype net_event = Do nat | TimerFired nat | WaitInterrupted nat

record retry_out =
  resp :: "int option"
  err :: "go_error option"
  netEvents :: "net_event list"

definition before :: "net_event list \<Rightarrow> retry_out \<Rightarrow> retry_out" where
  "before evs r = r\<lparr>netEvents := evs @ netEvents r\<rparr>"

function retryLoop :: "upstream \<Rightarrow> nat \<Rightarrow> int option \<Rightarrow> go_error option \<Rightarrow> retry_out" where
  "retryLoop u attempt lastResp lastErr =
     (if attempt \<le> maxChatRetries then
        (case attemptOutcome u attempt of
           TransportError e \<Rightarrow>
             if attempt = maxChatRetries then \<lparr>resp = None, err = Some e, netEvents = [Do attempt]\<rparr>
             else if ctxDoneInWait u attempt then
               \<lparr>resp = None, err = Some (ContextErr (ctxErr u)),
                netEvents = [Do attempt, WaitInterrupted (baseChatRetryDelay * attempt * attempt)]\<rparr>
             else before [Do attempt, TimerFired (baseChatRetryDelay * attempt * attempt)]
                    (retryLoop u (attempt + 1) lastResp (Some e))
         | Response statusCode \<Rightarrow>
             if \<not> isRetriableError statusCode None then
               \<lparr>resp = Some statusCode, err = None, netEvents = [Do attempt]\<rparr>
             else if attempt = maxChatRetries then
               \<lparr>resp = Some statusCode, err = None, netEvents = [Do attempt]\<rparr>
             else if ctxDoneInWait u attempt then
               \<lparr>resp = None, err = Some (ContextErr (ctxErr u)),
                netEvents = [Do attempt, WaitInterrupted (baseChatRetryDelay * attempt * attempt)]\<rparr>
             else before [Do attempt, TimerFired (baseChatRetryDelay * attempt * attempt)]
                    (retryLoop u (attempt + 1) (Some statusCode) lastErr))
      else \<lparr>resp = lastResp, err = lastErr, netEvents = []\<rparr>)"
  by pat_completeness auto
termination
  by (relation "measure (\<lambda>(u, attempt, lastResp, lastErr). 4 - attempt)") auto

declare retryLoop.simps [simp del]

definition makeRequestWithRetry :: "upstream \<Rightarrow> retry_out" where
  "makeRequestWithRetry u = retryLoop u 1 None None"




section \<open>Proxy: request pipeline and handler\<close>

text \<open>
  The fields of \<open>Config\<close> that the modelled functions read or write. \<open>ExpiresAt\<close> and
  \<open>RefreshIn\<close> are \<open>int64\<close>. The header template, the CORS lists and the timeouts only
  shape the requests and responses on the wire, which the environments below stand for.
\<close>

record Config =
  Port :: int
  GitHubToken :: string
  CopilotToken :: string
  ExpiresAt :: "64 word"
  RefreshIn :: "64 word"
  AllowedModels :: "string list"

text \<open>
  The body a client sends: a complete sequence of octets, or octets followed by a read
  error of the connection.
\<close>

datatype body_src = Complete bytes | Broken bytes go_error

record request =
  reqMethod :: string
  reqPath :: string
  reqBody :: body_src

text \<open>
  \<open>io.ReadAll\<close> on \<open>http.MaxBytesReader (w, r.Body, maxRequestBodySize)\<close>: the reader
  fails with \<open>http: request body too large\<close> as soon as the body goes beyond the cap.
\<close>

fun readBody :: "body_src \<Rightarrow> go_error + bytes" where
  "readBody (Complete b) =
     (if length b > maxRequestBodySize then Inl (Err ''http: request body too large'') else Inr b)"
| "readBody (Broken b e) =
     (if length b > maxRequestBodySize then Inl (Err ''http: request body too large'') else Inl e)"

text \<open>
  What \<open>processProxyRequest\<close> meets: the result of \<open>json.Unmarshal\<close> into the struct
  with the one field \<open>model\<close>, the outcome of \<open>EnsureValidToken\<close>, the upstream, the
  result of copying the response body to the client, and the instant \<open>time.Now()\<close> at
  which a failure is recorded.
\<close>

record proxy_env =
  decodeModel :: "bytes \<Rightarrow> go_error + string"
  ensureValidToken :: "go_error option outcome"
  upstreamOf :: upstream
  copyResult :: "go_error option"
  failureTime :: int

text \<open>
  What \<open>processProxyRequest\<close> leaves: its return value (or panic), the status code given
  to \<open>w.WriteHeader\<close> if it got that far (\<open>headersSent\<close> of the response wrapper is then
  true), the upstream traffic, and the circuit breaker.
\<close>

record proxy_out =
  returned :: "go_error option outcome"
  written :: "int option"
  traffic :: "net_event list"
  breakerAfter :: CircuitBreaker

definition fails :: "CircuitBreaker \<Rightarrow> go_error \<Rightarrow> proxy_out" where
  "fails cb e = \<lparr>returned = Returned (Some e), written = None, traffic = [], breakerAfter = cb\<rparr>"

definition modelAllowed :: "string list \<Rightarrow> string \<Rightarrow> bool" where
  "modelAllowed allowedModels model = (if length allowedModels > 0 then List.member allowedModels model else True)"

abbreviation (input) copilotAPIBase :: string where "copilotAPIBase \<equiv> ''https://api.githubcopilot.com''"
abbreviation (input) chatCompletionsPath :: string where "chatCompletionsPath \<equiv> ''/chat/completions''"

definition targetURL :: "string \<Rightarrow> string option" where
  "targetURL path =
     (if path = ''/v1/completions'' then Some (copilotAPIBase @ ''/completions'')
      else if path = ''/v1/chat/completions'' then Some (copilotAPIBase @ chatCompletionsPath)
      else None)"

text \<open>
  The part of \<open>processProxyRequest\<close> from \<open>makeRequestWithRetry\<close> on. A result with
  neither response nor error would be dereferenced as a nil response.
\<close>

definition forward :: "proxy_env \<Rightarrow> CircuitBreaker \<Rightarrow> string \<Rightarrow> proxy_out" where
  "forward env cb url =
     (let r = makeRequestWithRetry (upstreamOf env) in
      case err r of
        Some e \<Rightarrow>
          \<lparr>returned = Returned (Some (NetworkError ''proxy_request'' url ''failed to complete request after retries'' (Some e))),
           written = None, traffic = netEvents r, breakerAfter = onFailure (failureTime env) cb\<rparr>
      | None \<Rightarrow>
          (case resp r of
             None \<Rightarrow>
               \<lparr>returned = Panicked ''invalid memory address or nil pointer dereference'',
                written = None, traffic = netEvents r, breakerAfter = cb\<rparr>
           | Some statusCode \<Rightarrow>
               \<lparr>returned = Returned (copyResult env), written = Some statusCode, traffic = netEvents r,
                breakerAfter = (if statusCode < statusCodeServerError then onSuccess cb
                                else onFailure (failureTime env) cb)\<rparr>))"

definition processProxyRequest :: "errfmt \<Rightarrow> proxy_env \<Rightarrow> Config \<Rightarrow> CircuitBreaker \<Rightarrow> request \<Rightarrow> proxy_out" where
  "processProxyRequest f env cfg cb r =
     (if reqMethod r \<noteq> ''POST'' then fails cb (Err (''method not allowed: '' @ reqMethod r))
      else
       (case readBody (reqBody r) of
          Inl e \<Rightarrow>
            (if Contains (Error f e) ''http: request body too large''
             then fails cb (Wrap ''payload too large: '' e)
             else fails cb (Wrap ''bad request: failed to read request body: '' e))
        | Inr body \<Rightarrow>
            (if length body = 0 then fails cb (Err ''bad request: empty request body'')
             else
              (case decodeModel env body of
                 Inl jsonErr \<Rightarrow> fails cb (Wrap ''bad request: invalid JSON: '' jsonErr)
               | Inr model \<Rightarrow>
                   (if \<not> modelAllowed (AllowedModels cfg) model
                    then fails cb (Err (''bad request: model '' @ [CHR 0x27] @ model @ [CHR 0x27]
                                        @ '' is not allowed by allowed_models in config''))
                    else
                     (case ensureValidToken env of
                        Panicked v \<Rightarrow>
                          \<lparr>returned = Panicked v, written = None, traffic = [], breakerAfter = cb\<rparr>
                      | Returned None \<Rightarrow>
                          (case targetURL (reqPath r) of
                             None \<Rightarrow> fails cb (Err (''unsupported proxy path: '' @ reqPath r))
                           | Some url \<Rightarrow> forward env cb url)
                      | Returned (Some tokenErr) \<Rightarrow>
                          fails cb (AuthError ''token validation failed'' (Some tokenErr))))))))"

text \<open>The status that the handler's \<open>switch\<close> picks for the text of a worker's error.\<close>

definition statusFor :: "string \<Rightarrow> int" where
  "statusFor msg =
     (if Contains msg ''authentication error'' then 401
      else if Contains msg ''token validation failed'' then 401
      else if Contains msg ''bad request'' then 400
      else if Contains msg ''method not allowed'' then 405
      else 500)"

text \<open>
  What the handler meets besides the pipeline's environment: the instant of the
  admission check, whether the request's deadline comes before the worker's value on
  \<open>done\<close>, and, in that case, whether the worker had sent headers by then.
\<close>

record handler_env =
  pipeline :: proxy_env
  admitTime :: int
  deadlineFirst :: bool
  headersSentAtDeadline :: bool

record handler_out =
  status :: "int option"
  upstreamTraffic :: "net_event list"
  breaker :: CircuitBreaker

definition respond :: "errfmt \<Rightarrow> handler_env \<Rightarrow> proxy_out \<Rightarrow> int option" where
  "respond f env p =
     (if deadlineFirst env then (if headersSentAtDeadline env then written p else Some 408)
      else case snd (workerClosure (returned p)) of
        Some e # rest \<Rightarrow> (if written p = None then Some (statusFor (Error f e)) else written p)
      | None # rest \<Rightarrow> written p
      | [] \<Rightarrow> written p)"

definition Handler :: "errfmt \<Rightarrow> handler_env \<Rightarrow> Config \<Rightarrow> CircuitBreaker \<Rightarrow> request \<Rightarrow> handler_out" where
  "Handler f env cfg cb r =
     (case canExecute (admitTime env) cb of
        (False, cb') \<Rightarrow> \<lparr>status = Some 503, upstreamTraffic = [], breaker = cb'\<rparr>
      | (True, cb') \<Rightarrow>
          (let p = processProxyRequest f (pipeline env) cfg cb' r
           in \<lparr>status = respond f env p, upstreamTraffic = traffic p, breaker = breakerAfter p\<rparr>))"

section \<open>Auth service: refresh\<close>

abbreviation (input) maxRefreshRetries :: nat where "maxRefreshRetries \<equiv> 3"
abbreviation (input) baseRetryDelay :: nat where "baseRetryDelay \<equiv> 2"

text \<open>
  The result of \<open>getCopilotToken\<close> when it returns: an error, or the token with its expiry
  and refresh interval. The reply to a POST to the token URL: the transport fails, the
  body does not decode, or a \<open>tokenResponse\<close> with its fields \<open>access_token\<close>,
  \<open>error\<close>, \<open>error_description\<close>. (\<open>http.NewRequest\<close> is given a constant method and
  a constant URL there and does not fail.)
\<close>

datatype token_reply = TokenFailed go_error | TokenIssued string "64 word" "64 word"

datatype poll_reply =
    PollTransportError go_error
  | PollDecodeError go_error
  | PollResponse string string string

text \<open>
  What the service does to the outside. A backoff wait of the refresh, of so many seconds,
  ends with its timer (\<open>Slept\<close>) or with the context (\<open>SleepInterrupted\<close>). A wait of
  the polling loop carries its \<open>time.Duration\<close> as it is, an \<open>int64\<close> count of
  nanoseconds, and ends with its timer (\<open>PollWaited\<close>) or with the context
  (\<open>PollWaitCancelled\<close>); a timer of a duration that is not positive fires at once.
\<close>

datatype auth_event =
    RefreshCalled
  | CopilotTokenRequest
  | DatabaseFetch
  | DatabaseUpdate
  | TokenPoll
  | Slept int
  | SleepInterrupted int
  | PollWaited "64 word"
  | PollWaitCancelled "64 word"

text \<open>
  What the service meets: the injected refresh function, if any; the result of the
  \<open>n\<close>-th exchange with the API-key URL; whether the context is done before the timer of
  wait \<open>n\<close> fires, and the error it then reports; the results of the two store
  operations; the reply to the \<open>n\<close>-th poll of the token URL; \<open>time.Now().Unix()\<close>.
\<close>

record auth_env =
  refreshFunc :: "(Config \<Rightarrow> go_error option \<times> Config) option"
  copilotReply :: "nat \<Rightarrow> token_reply"
  ctxDone :: "nat \<Rightarrow> bool"
  ctxReason :: ctx_reason
  updateResult :: "go_error option"
  fetchResult :: "go_error + Config"
  pollReply :: "nat \<Rightarrow> poll_reply"
  clock :: "64 word"

record auth_out =
  result :: "go_error option outcome"
  cfgAfter :: Config
  events :: "auth_event list"

definition after :: "auth_event list \<Rightarrow> auth_out \<Rightarrow> auth_out" where
  "after evs r = r\<lparr>events := evs @ events r\<rparr>"

text \<open>
  \<open>getCopilotToken\<close>: before the request is sent, the arguments of the debug log are
  evaluated, among them \<open>githubToken[:10]\<close>, which panics on a token shorter than ten
  octets.
\<close>

definition getCopilotToken :: "auth_env \<Rightarrow> nat \<Rightarrow> string \<Rightarrow> token_reply outcome \<times> auth_event list" where
  "getCopilotToken env n githubToken =
     (if length githubToken < 10 then (Panicked ''slice bounds out of range'', [])
      else (Returned (copilotReply env n), [CopilotTokenRequest]))"

definition storeToken :: "auth_env \<Rightarrow> string \<Rightarrow> Config \<Rightarrow> auth_event list \<Rightarrow> auth_out" where
  "storeToken env prefix cfg evs =
     (case updateResult env of
        Some e \<Rightarrow> \<lparr>result = Returned (Some (Wrap prefix e)), cfgAfter = cfg, events = evs @ [DatabaseUpdate]\<rparr>
      | None \<Rightarrow> \<lparr>result = Returned None, cfgAfter = cfg, events = evs @ [DatabaseUpdate]\<rparr>)"

function refreshLoop :: "auth_env \<Rightarrow> Config \<Rightarrow> nat \<Rightarrow> auth_out" where
  "refreshLoop env cfg attempt =
     (if attempt \<le> maxRefreshRetries then
        (case getCopilotToken env attempt (GitHubToken cfg) of
           (Panicked v, evs) \<Rightarrow> \<lparr>result = Panicked v, cfgAfter = cfg, events = evs\<rparr>
         | (Returned (TokenFailed e), evs) \<Rightarrow>
             if attempt = maxRefreshRetries then \<lparr>result = Returned (Some e), cfgAfter = cfg, events = evs\<rparr>
             else if ctxDone env attempt then
               \<lparr>result = Returned (Some (ContextErr (ctxReason env))), cfgAfter = cfg,
                events = evs @ [SleepInterrupted (int (baseRetryDelay * attempt * attempt))]\<rparr>
             else after (evs @ [Slept (int (baseRetryDelay * attempt * attempt))])
                    (refreshLoop env cfg (attempt + 1))
         | (Returned (TokenIssued copilotToken expiresAt refreshIn), evs) \<Rightarrow>
             storeToken env ''failed to update token in database: ''
               (cfg\<lparr>CopilotToken := copilotToken, ExpiresAt := expiresAt, RefreshIn := refreshIn\<rparr>) evs)
      else \<lparr>result = Returned (Some (AuthError ''maximum retry attempts exceeded'' None)),
            cfgAfter = cfg, events = []\<rparr>)"
  by pat_completeness auto
termination
  by (relation "measure (\<lambda>(env, cfg, attempt). 4 - attempt)") auto

declare refreshLoop.simps [simp del]

definition RefreshTokenWithContext :: "auth_env \<Rightarrow> Config \<Rightarrow> auth_out" where
  "RefreshTokenWithContext env cfg =
     (case refreshFunc env of
        Some fn \<Rightarrow> \<lparr>result = Returned (fst (fn cfg)), cfgAfter = snd (fn cfg), events = []\<rparr>
      | None \<Rightarrow>
          if GitHubToken cfg = [] then
            \<lparr>result = Returned (Some (AuthError ''no GitHub token available for refresh'' None)),
             cfgAfter = cfg, events = []\<rparr>
          else refreshLoop env cfg 1)"

text \<open>\<open>RefreshToken\<close> passes \<open>context.Background()\<close>, which is never done.\<close>

definition background :: "auth_env \<Rightarrow> auth_env" where
  "background env = env\<lparr>ctxDone := (\<lambda>n. False)\<rparr>"






fun isTokenRequest :: "auth_event \<Rightarrow> bool" where
  "isTokenRequest CopilotTokenRequest = True"
| "isTokenRequest e = False"

fun isPoll :: "auth_event \<Rightarrow> bool" where
  "isPoll TokenPoll = True"
| "isPoll e = False"

text \<open>The lengths of the waits among the events, in order, however they ended.\<close>

fun waits :: "auth_event list \<Rightarrow> int list" where
  "waits [] = []"
| "waits (Slept d # es) = d # waits es"
| "waits (SleepInterrupted d # es) = d # waits es"
| "waits (e # es) = waits es"

text \<open>What follows the first interrupted wait among the events.\<close>

fun afterInterrupt :: "auth_event list \<Rightarrow> auth_event list option" where
  "afterInterrupt [] = None"
| "afterInterrupt (SleepInterrupted d # es) = Some es"
| "afterInterrupt (e # es) = afterInterrupt es"

section \<open>Auth service: device flow, stage 2\<close>

datatype 'a loop_step = Continue | Break 'a

record poll_out =
  token :: "(go_error + string) outcome"
  pollEvents :: "auth_event list"

definition afterPoll :: "auth_event list \<Rightarrow> poll_out \<Rightarrow> poll_out" where
  "afterPoll evs r = r\<lparr>pollEvents := evs @ pollEvents r\<rparr>"

text \<open>
  What a \<open>tokenResponse\<close> makes of one iteration of the polling loop, and of the single
  check.
\<close>

definition pollVerdict :: "string \<Rightarrow> string \<Rightarrow> string \<Rightarrow> (go_error + string) loop_step" where
  "pollVerdict accessToken error errorDesc =
     (if error \<noteq> [] then
        (if error = ''authorization_pending'' then Continue
         else Break (Inl (AuthError (''authorization failed: '' @ error @ '' - '' @ errorDesc) None)))
      else if accessToken \<noteq> [] then Break (Inr accessToken)
      else Continue)"

text \<open>
  \<open>time.Duration(interval) * time.Second\<close>: the product is taken in \<open>int64\<close>
  nanoseconds and wraps around.
\<close>

definition pollDelay :: "64 word \<Rightarrow> 64 word" where
  "pollDelay interval = interval * 1000000000"

text \<open>
  The body of the loop in \<open>pollForGitHubTokenWithContext\<close>, in iteration \<open>i\<close> (from 0):
  the wait on \<open>time.After (pollDelay interval)\<close>, then the POST and its reply.
\<close>

definition pollIteration :: "auth_env \<Rightarrow> 64 word \<Rightarrow> nat \<Rightarrow> (go_error + string) loop_step \<times> auth_event list" where
  "pollIteration env interval i =
     (if ctxDone env i then (Break (Inl (ContextErr (ctxReason env))), [PollWaitCancelled (pollDelay interval)])
      else
       (case pollReply env i of
          PollTransportError e \<Rightarrow> (Continue, [PollWaited (pollDelay interval), TokenPoll])
        | PollDecodeError e \<Rightarrow> (Continue, [PollWaited (pollDelay interval), TokenPoll])
        | PollResponse accessToken error errorDesc \<Rightarrow>
            (pollVerdict accessToken error errorDesc, [PollWaited (pollDelay interval), TokenPoll])))"

text \<open>The durations of the polling waits among the events, in order, however they ended.\<close>

fun pollWaits :: "auth_event list \<Rightarrow> 64 word list" where
  "pollWaits [] = []"
| "pollWaits (PollWaited d # es) = d # pollWaits es"
| "pollWaits (PollWaitCancelled d # es) = d # pollWaits es"
| "pollWaits (e # es) = pollWaits es"

text \<open>\<open>for range maxIterations\<close>, with the iterations still to run and the index of the next.\<close>

fun pollLoop :: "auth_env \<Rightarrow> 64 word \<Rightarrow> nat \<Rightarrow> nat \<Rightarrow> poll_out" where
  "pollLoop env interval 0 i =
     \<lparr>token = Returned (Inl (AuthError ''authentication timed out'' None)), pollEvents = []\<rparr>"
| "pollLoop env interval (Suc n) i =
     (case pollIteration env interval i of
        (Break r, evs) \<Rightarrow> \<lparr>token = Returned r, pollEvents = evs\<rparr>
      | (Continue, evs) \<Rightarrow> afterPoll evs (pollLoop env interval n (Suc i)))"

text \<open>
  \<open>maxIterations := (expiresIn / interval) + 1\<close> on Go's \<open>int\<close> (64 bits): the quotient
  is truncated towards zero, the sum wraps around.
\<close>

definition maxIterations :: "64 word \<Rightarrow> 64 word \<Rightarrow> 64 word" where
  "maxIterations interval expiresIn = word_of_int (sint expiresIn sdiv sint interval) + 1"

text \<open>A range over a non-positive count runs no iteration; division by zero panics.\<close>

definition pollForGitHubTokenWithContext :: "auth_env \<Rightarrow> 64 word \<Rightarrow> 64 word \<Rightarrow> poll_out" where
  "pollForGitHubTokenWithContext env interval expiresIn =
     (if interval = 0 then \<lparr>token = Panicked ''integer divide by zero'', pollEvents = []\<rparr>
      else pollLoop env interval (nat (sint (maxIterations interval expiresIn))) 0)"

definition pollForGitHubToken :: "auth_env \<Rightarrow> 64 word \<Rightarrow> 64 word \<Rightarrow> poll_out" where
  "pollForGitHubToken env interval expiresIn =
     pollForGitHubTokenWithContext (background env) interval expiresIn"

definition checkGitHubTokenOnce :: "auth_env \<Rightarrow> poll_out" where
  "checkGitHubTokenOnce env =
     (case pollReply env 0 of
        PollTransportError e \<Rightarrow> \<lparr>token = Returned (Inl e), pollEvents = [TokenPoll]\<rparr>
      | PollDecodeError e \<Rightarrow> \<lparr>token = Returned (Inl e), pollEvents = [TokenPoll]\<rparr>
      | PollResponse accessToken error errorDesc \<Rightarrow>
          (if error \<noteq> [] then \<lparr>token = Returned (Inl (AuthError error None)), pollEvents = [TokenPoll]\<rparr>
           else if accessToken \<noteq> [] then \<lparr>token = Returned (Inr accessToken), pollEvents = [TokenPoll]\<rparr>
           else \<lparr>token = Returned (Inl (AuthError ''no access token in response'' None)),
                 pollEvents = [TokenPoll]\<rparr>))"

text \<open>
  \<open>AuthenticateStage2\<close> from the GitHub token on: the exchange for the Copilot token and
  the write to the store.
\<close>

definition exchangeAndStore :: "auth_env \<Rightarrow> Config \<Rightarrow> string \<Rightarrow> auth_out" where
  "exchangeAndStore env cfg githubToken =
     (case getCopilotToken env 1 githubToken of
        (Panicked v, evs) \<Rightarrow>
          \<lparr>result = Panicked v, cfgAfter = cfg\<lparr>GitHubToken := githubToken\<rparr>, events = evs\<rparr>
      | (Returned (TokenFailed e), evs) \<Rightarrow>
          \<lparr>result = Returned (Some (Wrap ''failed to get Copilot token: '' e)),
           cfgAfter = cfg\<lparr>GitHubToken := githubToken\<rparr>, events = evs\<rparr>
      | (Returned (TokenIssued copilotToken expiresAt refreshIn), evs) \<Rightarrow>
          storeToken env ''failed to save token to database: ''
            (cfg\<lparr>GitHubToken := githubToken, CopilotToken := copilotToken,
                 ExpiresAt := expiresAt, RefreshIn := refreshIn\<rparr>) evs)"

definition AuthenticateStage2 :: "auth_env \<Rightarrow> 64 word \<Rightarrow> 64 word \<Rightarrow> Config \<Rightarrow> bool \<Rightarrow> auth_out" where
  "AuthenticateStage2 env interval expiresIn cfg pollMode =
     (let p = (if pollMode then pollForGitHubToken env interval expiresIn else checkGitHubTokenOnce env);
          prefix = (if pollMode then ''failed to get GitHub token: '' else ''failed to check GitHub token: '')
      in case token p of
           Panicked v \<Rightarrow> \<lparr>result = Panicked v, cfgAfter = cfg, events = pollEvents p\<rparr>
         | Returned (Inl e) \<Rightarrow> \<lparr>result = Returned (Some (Wrap prefix e)), cfgAfter = cfg, events = pollEvents p\<rparr>
         | Returned (Inr githubToken) \<Rightarrow> after (pollEvents p) (exchangeAndStore env cfg githubToken))"

section \<open>Auth API: the stage-2 handler\<close>

text \<open>
  \<open>isValidEmail\<close> matches the regular expression
  \<^verbatim>\<open>^[a-zA-Z0-9._%+\-]+@[a-zA-Z0-9.\-]+\.[a-zA-Z]{2,}$\<close>.
  Neither character class holds \<open>@\<close>, and the last group holds no dot: the local part is
  what precedes the first \<open>@\<close>, the last group is what follows the last dot after it.
\<close>

definition isAlpha :: "char \<Rightarrow> bool" where
  "isAlpha c = (let n = (of_char c :: nat) in (65 \<le> n \<and> n \<le> 90) \<or> (97 \<le> n \<and> n \<le> 122))"

definition isDigit :: "char \<Rightarrow> bool" where
  "isDigit c = (let n = (of_char c :: nat) in 48 \<le> n \<and> n \<le> 57)"

definition localChar :: "char \<Rightarrow> bool" where
  "localChar c = (isAlpha c \<or> isDigit c \<or> List.member ''._%+-'' c)"

definition domainChar :: "char \<Rightarrow> bool" where
  "domainChar c = (isAlpha c \<or> isDigit c \<or> List.member ''.-'' c)"

definition notAt :: "char \<Rightarrow> bool" where
  "notAt c = (c \<noteq> CHR ''@'')"

definition notDot :: "char \<Rightarrow> bool" where
  "notDot c = (c \<noteq> CHR ''.'')"

definition isValidEmail :: "string \<Rightarrow> bool" where
  "isValidEmail email =
     (case dropWhile notAt email of
        [] \<Rightarrow> False
      | atSign # rest \<Rightarrow>
          (case dropWhile notDot (rev rest) of
             [] \<Rightarrow> False
           | lastDot # revDomain \<Rightarrow>
               takeWhile notAt email \<noteq> [] \<and> list_all localChar (takeWhile notAt email)
               \<and> revDomain \<noteq> [] \<and> list_all domainChar revDomain
               \<and> 2 \<le> length (takeWhile notDot (rev rest))
               \<and> list_all isAlpha (takeWhile notDot (rev rest))))"

record Stage2Request =
  Email :: string
  DeviceCode :: string
  Interval :: "64 word"
  ExpiresIn :: "64 word"
  PollMode :: bool

record stage2_http =
  s2Method :: string
  s2Body :: body_src

text \<open>
  The handler's environment: the auth service's, and the result of \<open>json.Unmarshal\<close> of
  the body into a \<open>Stage2Request\<close>.
\<close>

record stage2_env =
  authEnv :: auth_env
  decodeStage2 :: "bytes \<Rightarrow> go_error + Stage2Request"

text \<open>The JSON reply: the status code, \<open>success\<close> and \<open>error\<close>.\<close>

record http_reply =
  code :: int
  success :: bool
  errorField :: string

record stage2_out =
  reply :: "http_reply outcome"
  stage2Events :: "auth_event list"

definition sendStage2ErrorResponse :: "int \<Rightarrow> string \<Rightarrow> http_reply" where
  "sendStage2ErrorResponse statusCode message = \<lparr>code = statusCode, success = False, errorField = message\<rparr>"

definition sendStage2PendingResponse :: http_reply where
  "sendStage2PendingResponse = \<lparr>code = 202, success = False, errorField = ''authorization_pending''\<rparr>"

definition rejected :: "int \<Rightarrow> string \<Rightarrow> stage2_out" where
  "rejected statusCode message =
     \<lparr>reply = Returned (sendStage2ErrorResponse statusCode message), stage2Events = []\<rparr>"

text \<open>The handler from the call of \<open>AuthenticateStage2\<close> on.\<close>

definition completeStage2 :: "errfmt \<Rightarrow> auth_env \<Rightarrow> Config \<Rightarrow> Stage2Request \<Rightarrow> stage2_out" where
  "completeStage2 f env cfg req =
     (let a = AuthenticateStage2 env (Interval req) (ExpiresIn req) cfg (PollMode req) in
      case result a of
        Panicked v \<Rightarrow> \<lparr>reply = Panicked v, stage2Events = events a\<rparr>
      | Returned (Some e) \<Rightarrow>
          (if \<not> PollMode req \<and> Contains (Error f e) ''authorization_pending''
           then \<lparr>reply = Returned sendStage2PendingResponse, stage2Events = events a\<rparr>
           else \<lparr>reply = Returned (sendStage2ErrorResponse 500 (Error f e)), stage2Events = events a\<rparr>)
      | Returned None \<Rightarrow>
          (case fetchResult env of
             Inl e \<Rightarrow>
               \<lparr>reply = Returned (sendStage2ErrorResponse 500
                          ''authentication succeeded but failed to retrieve token info''),
                stage2Events = events a @ [DatabaseFetch]\<rparr>
           | Inr stored \<Rightarrow>
               \<lparr>reply = Returned \<lparr>code = 200, success = True, errorField = []\<rparr>,
                stage2Events = events a @ [DatabaseFetch]\<rparr>))"

definition Stage2Handler :: "errfmt \<Rightarrow> stage2_env \<Rightarrow> Config \<Rightarrow> stage2_http \<Rightarrow> stage2_out" where
  "Stage2Handler f env cfg r =
     (if s2Method r \<noteq> ''POST'' then rejected 405 ''method not allowed''
      else
       (case s2Body r of
          Broken b e \<Rightarrow> rejected 400 ''failed to read request body''
        | Complete body \<Rightarrow>
            (case decodeStage2 env body of
               Inl e \<Rightarrow> rejected 400 ''invalid JSON format''
             | Inr req \<Rightarrow>
                 (if Email req = [] then rejected 400 ''email is required''
                  else if \<not> isValidEmail (Email req) then rejected 400 ''invalid email format''
                  else if DeviceCode req = [] then rejected 400 ''device_code is required''
                  else if Interval req \<le>s 0 then rejected 400 ''interval must be positive''
                  else completeStage2 f (authEnv env) cfg req))))"

section \<open>Concrete inputs\<close>

text \<open>Three callers of \<open>CoalesceRequest\<close> with one key, whose \<open>fn\<close> returns one value.\<close>

definition threeCallers :: "(string \<times> iface) list" where
  "threeCallers =
     [(''k'', OtherValue ''models''), (''k'', OtherValue ''models''), (''k'', OtherValue ''models'')]"

text \<open>Five failures in a row, at the instants 1 to 5; the breaker's timeout is 30.\<close>

definition fiveFailures :: "cb_event list" where
  "fiveFailures = [RecordFailure 1, RecordFailure 2, RecordFailure 3, RecordFailure 4, RecordFailure 5]"



text \<open>
  A request to the chat endpoint whose body is one octet over the cap, a handler
  environment in which everything else would succeed, and a configuration.
\<close>

definition oversizeRequest :: request where
  "oversizeRequest =
     \<lparr>reqMethod = ''POST'', reqPath = ''/v1/chat/completions'',
      reqBody = Complete (replicate (maxRequestBodySize + 1) (CHR ''a''))\<rparr>"

definition healthyUpstream :: upstream where
  "healthyUpstream = \<lparr>attemptOutcome = (\<lambda>n. Response 200), ctxDoneInWait = (\<lambda>n. False), ctxErr = Canceled\<rparr>"

definition healthyEnv :: handler_env where
  "healthyEnv =
     \<lparr>pipeline = \<lparr>decodeModel = (\<lambda>b. Inr ''gpt-4o''), ensureValidToken = Returned None,
                  upstreamOf = healthyUpstream, copyResult = None, failureTime = 0\<rparr>,
      admitTime = 0, deadlineFirst = False, headersSentAtDeadline = False\<rparr>"

definition someConfig :: Config where
  "someConfig =
     \<lparr>Port = 8081, GitHubToken = ''gho_0123456789'', CopilotToken = ''tid=abc'',
      ExpiresAt = 2000, RefreshIn = 1500, AllowedModels = []\<rparr>"

text \<open>
  An auth environment at the clock reading 1000 in which every exchange with the API-key
  URL fails and every poll of the token URL says \<open>authorization_pending\<close>, under a
  context that stays live; the same with the context done during wait \<open>n\<close>; and a
  configuration whose token expires at a given second.
\<close>

definition failingAuthEnv :: auth_env where
  "failingAuthEnv =
     \<lparr>refreshFunc = None, copilotReply = (\<lambda>n. TokenFailed (Err ''HTTP 500 response'')),
      ctxDone = (\<lambda>n. False), ctxReason = Canceled, updateResult = None,
      fetchResult = Inr someConfig,
      pollReply = (\<lambda>n. PollResponse [] ''authorization_pending'' []), clock = 1000\<rparr>"

definition cancelledDuring :: "nat \<Rightarrow> auth_env" where
  "cancelledDuring n = failingAuthEnv\<lparr>ctxDone := (\<lambda>k. k = n)\<rparr>"


text \<open>
  In the words of the specification: the bound \<open>\<lceil>expires_in / interval\<rceil> + 1\<close> on the
  number of polling iterations.
\<close>

definition specMaxIterations :: "int \<Rightarrow> int \<Rightarrow> int" where
  "specMaxIterations interval expiresIn = \<lceil>real_of_int expiresIn / real_of_int interval\<rceil> + 1"

text \<open>
  An upstream that approves at the third poll; a stage-2 request in single-check mode with
  the environment that decodes it.
\<close>

definition approvedAtThirdPoll :: auth_env where
  "approvedAtThirdPoll =
     failingAuthEnv\<lparr>pollReply :=
       (\<lambda>n. if n = 2 then PollResponse ''gho_0123456789'' [] []
             else PollResponse [] ''authorization_pending'' [])\<rparr>"

definition singleCheck :: Stage2Request where
  "singleCheck =
     \<lparr>Email = ''u@x.com'', DeviceCode = ''3584d83530557fdd1f46af8289938c8ef79f9dc5'',
      Interval = 5, ExpiresIn = 900, PollMode = False\<rparr>"

definition singleCheckHttp :: stage2_http where
  "singleCheckHttp = \<lparr>s2Method = ''POST'', s2Body = Complete ''{}''\<rparr>"

definition pendingStage2Env :: stage2_env where
  "pendingStage2Env = \<lparr>authEnv = failingAuthEnv, decodeStage2 = (\<lambda>b. Inr singleCheck)\<rparr>"

text \<open>
  Two environments in which the single check fails in the transport: in the first a proxy
  refuses the tunnel to the token URL with the status text \<open>authorization_pending\<close>, which
  the HTTP client reports as the text of its error; in the second the connection times
  out.
\<close>

definition refusedByProxy :: go_error where
  "refusedByProxy =
     Err (''Post '' @ [CHR 0x22] @ ''https://github.com/login/oauth/access_token'' @ [CHR 0x22]
          @ '': authorization_pending'')"

definition timedOut :: go_error where
  "timedOut =
     Err (''Post '' @ [CHR 0x22] @ ''https://github.com/login/oauth/access_token'' @ [CHR 0x22]
          @ '': dial tcp: i/o timeout'')"

definition refusedStage2Env :: stage2_env where
  "refusedStage2Env =
     \<lparr>authEnv = failingAuthEnv\<lparr>pollReply := (\<lambda>n. PollTransportError refusedByProxy)\<rparr>,
      decodeStage2 = (\<lambda>b. Inr singleCheck)\<rparr>"

definition timedOutStage2Env :: stage2_env where
  "timedOutStage2Env =
     \<lparr>authEnv = failingAuthEnv\<lparr>pollReply := (\<lambda>n. PollTransportError timedOut)\<rparr>,
      decodeStage2 = (\<lambda>b. Inr singleCheck)\<rparr>"

section \<open>Properties of the coalescing key\<close>

text \<open>
  C10. \<open>GetRequestKey\<close> hashes the octets of the method, the URL and the body one after
  the other, with nothing between them; a body that is nil or not a \<open>[]byte\<close> adds no
  octet. So moving octets across the boundary between method and URL, or between URL and
  body, leaves the key unchanged: the distinct requests \<open>(GET, /v1/models)\<close> and
  \<open>(GE, T/v1/models)\<close> have the same key, and the second, arriving while the first is in
  flight, waits on the first one's channel instead of computing.
\<close>

theorem GetRequestKey_concatenates:
  "GetRequestKey H m u (ByteSlice y) = EncodeToString (H (m @ u @ y))
   \<and> GetRequestKey H m u NilValue = EncodeToString (H (m @ u))
   \<and> GetRequestKey H m u (OtherValue v) = GetRequestKey H m u NilValue
   \<and> GetRequestKey H (m @ x) u b = GetRequestKey H m (x @ u) b
   \<and> GetRequestKey H m (u @ x) (ByteSlice y) = GetRequestKey H m u (ByteSlice (x @ y))
   \<and> (''GET'', ''/v1/models'') \<noteq> (''GE'', ''T/v1/models'')
   \<and> GetRequestKey H ''GET'' ''/v1/models'' NilValue = GetRequestKey H ''GE'' ''T/v1/models'' NilValue
   \<and> callers (runSchedule [(GetRequestKey H ''GET'' ''/v1/models'' NilValue, r),
                            (GetRequestKey H ''GE'' ''T/v1/models'' NilValue, r')] [0, 1])
       = [Executing 0, Waiting 0]"
  by (cases b) (simp_all add: GetRequestKey_def runSchedule_def step_def NewCoalescingCache_def)

section \<open>Properties of \<open>CoalesceRequest\<close>\<close>

text \<open>
  C4. Three callers use one key. Caller 0 arrives first and becomes the executor; callers
  1 and 2 arrive while it is in flight and wait on its channel. The executor runs \<open>fn\<close>
  (once), sends the result, closes the channel and deletes the key. Caller 1 then receives
  the one buffered value; caller 2 receives from the empty closed channel and gets nil,
  not the value that \<open>fn\<close> returned. (With two callers, under the same order of events,
  both get the value.)
\<close>

theorem CoalesceRequest_second_waiter_gets_nil:
  "callers (runSchedule threeCallers [0, 1, 2, 0, 0, 0, 0, 1, 2])
     = [Finished (OtherValue ''models''), Finished (OtherValue ''models''), Finished NilValue]
   \<and> invoked (runSchedule threeCallers [0, 1, 2, 0, 0, 0, 0, 1, 2]) = [0]
   \<and> requests (runSchedule threeCallers [0, 1, 2, 0, 0, 0, 0, 1, 2]) ''k'' = None
   \<and> callers (runSchedule (butlast threeCallers) [0, 1, 0, 0, 0, 0, 1])
     = [Finished (OtherValue ''models''), Finished (OtherValue ''models'')]"
  by (simp add: runSchedule_def threeCallers_def step_def NewCoalescingCache_def)

section \<open>Properties of the worker pool\<close>

text \<open>
  C9, as stated, fails: a worker that receives a panicking job and then another one does
  not recover; the panic leaves the goroutine and the second job is not served.
\<close>

theorem worker_does_not_recover:
  "crashed (worker [Panicked ''boom'', Returned ()]) = Some ''boom''
   \<and> served (worker [Panicked ''boom'', Returned ()]) = 0"
  by simp

lemma worker_closures:
  "worker (map (\<lambda>p. fst (workerClosure p)) ps) = \<lparr>served = length ps, crashed = None\<rparr>"
proof (induction ps)
  case Nil
  show ?case by simp
next
  case (Cons p ps)
  then show ?case by (cases p) simp_all
qed

text \<open>
  C9, amended. The recovery is in the closure that the proxy handler submits, not in the
  pool: whatever \<open>processProxyRequest\<close> does, the closure returns normally, and when the
  pipeline panicked it sends a proxy error that records the panic on \<open>done\<close>. A worker
  that is given only such closures serves all of them. A job that panics itself ends the
  worker.
\<close>

theorem handler_closure_recovers:
  "fst (workerClosure p) = Returned ()
   \<and> snd (workerClosure (Panicked v))
       = [Some (ProxyError ''request_processing'' ''worker panic during request processing''
                  (Some (Err (''panic: '' @ v))))]
   \<and> snd (workerClosure (Returned e)) = [e]
   \<and> worker (map (\<lambda>p. fst (workerClosure p)) ps) = \<lparr>served = length ps, crashed = None\<rparr>
   \<and> crashed (worker (Panicked v # jobs)) = Some v"
  by (cases p) (simp_all add: worker_closures)

section \<open>Properties of the circuit breaker\<close>

lemma sint_succ64: "sint (c :: 64 word) < 2 ^ 63 - 1 \<Longrightarrow> sint (c + 1) = sint c + 1"
proof -
  assume a: "sint c < 2 ^ 63 - 1"
  have lo: "- (2 ^ 63) \<le> sint c" using sint_ge [of c] by simp
  have "sint (c + 1) = signed_take_bit 63 (sint c + 1)"
    by (simp add: sint_word_ariths)
  also have "\<dots> = sint c + 1"
    using a lo by (intro signed_take_bit_int_eq_self) simp_all
  finally show ?thesis .
qed

lemma threshold_sle: "(5 \<le>s (c :: 64 word)) = (5 \<le> sint c)"
  by (simp add: word_sle_eq)

lemma runBreaker_snoc: "runBreaker t (es @ [e]) = applyEvent (runBreaker t es) e"
  by (simp add: runBreaker_def)

lemma consecutiveFailures_snoc:
  "consecutiveFailures (es @ [e]) = countEvent (consecutiveFailures es) e"
  by (simp add: consecutiveFailures_def)

lemma consecutiveFailures_le: "consecutiveFailures es \<le> length es"
proof (induction es rule: rev_induct)
  case Nil
  show ?case by (simp add: consecutiveFailures_def)
next
  case (snoc e es)
  then show ?case by (cases e) (simp_all add: consecutiveFailures_snoc)
qed

text \<open>
  The invariant of the breaker along any run: the counter is the number of failures since
  the last success, the breaker is closed exactly while that number is below the
  threshold, and the timeout is the configured one.
\<close>

lemma breaker_invariant:
  "int (length es) < 2 ^ 63 - 1 \<Longrightarrow>
     sint (failureCount (runBreaker t es)) = int (consecutiveFailures es)
     \<and> (state (runBreaker t es) = CircuitClosed \<longleftrightarrow> consecutiveFailures es < 5)
     \<and> timeout (runBreaker t es) = t"
proof (induction es rule: rev_induct)
  case Nil
  show ?case by (simp add: runBreaker_def consecutiveFailures_def newCircuitBreaker_def)
next
  case (snoc e es)
  then have len: "int (length es) < 2 ^ 63 - 1" by simp
  note ih = snoc.IH [OF len]
  have bound: "int (consecutiveFailures es) < 2 ^ 63 - 1"
    using consecutiveFailures_le [of es] len by linarith
  show ?case
  proof (cases e)
    case (Admission now)
    with ih show ?thesis
      by (auto simp: runBreaker_snoc consecutiveFailures_snoc canExecute_def)
  next
    case RecordSuccess
    with ih show ?thesis
      by (simp add: runBreaker_snoc consecutiveFailures_snoc onSuccess_def)
  next
    case (RecordFailure now)
    have s: "sint (failureCount (runBreaker t es) + 1) = int (consecutiveFailures es) + 1"
      using ih bound sint_succ64 [of "failureCount (runBreaker t es)"] by simp
    with RecordFailure ih show ?thesis
      by (auto simp: runBreaker_snoc consecutiveFailures_snoc onFailure_def Let_def threshold_sle)
  qed
qed

lemma canExecute_cases:
  "(state cb = CircuitClosed \<longrightarrow> canExecute now cb = (True, cb))
   \<and> (state cb = CircuitOpen \<and> now - lastFailureTime cb \<le> timeout cb \<longrightarrow> canExecute now cb = (False, cb))
   \<and> (state cb = CircuitOpen \<and> now - lastFailureTime cb > timeout cb \<longrightarrow>
        canExecute now cb = (True, cb\<lparr>state := CircuitHalfOpen\<rparr>))
   \<and> (state cb = CircuitHalfOpen \<longrightarrow> canExecute now cb = (True, cb))"
  by (simp add: canExecute_def)

lemma onFailure_state:
  "sint (failureCount cb) < 2 ^ 63 - 1 \<Longrightarrow>
     state (onFailure now cb) = (if 4 \<le> sint (failureCount cb) then CircuitOpen else state cb)
     \<and> lastFailureTime (onFailure now cb) = now
     \<and> sint (failureCount (onFailure now cb)) = sint (failureCount cb) + 1"
  using sint_succ64 [of "failureCount cb"] by (simp add: onFailure_def Let_def threshold_sle)

text \<open>
  C2. Take any sequence \<open>es\<close> of admission checks and recorded outcomes (shorter than
  \<open>2^63 - 1\<close>, the range of the \<open>int64\<close> counter), applied to a new breaker with timeout
  \<open>t\<close>. The breaker starts closed. After \<open>es\<close> its counter is the number of consecutive
  failures, and it is closed exactly when fewer than five failures have been recorded in
  a row: while closed it admits (and stays as it is), and a further failure at \<open>now\<close>
  opens it exactly when it is the fifth in a row, with \<open>now\<close> as the time of the last
  failure. While open, a check at most \<open>t\<close> after the last failure is rejected and
  changes nothing; a later check admits and makes the breaker half-open. Half-open, it
  admits. A recorded success sets the counter to 0 and closes the breaker; a failure
  recorded while half-open opens it again with the new time.
\<close>

theorem circuit_breaker_machine:
  "int (length es) < 2 ^ 63 - 1 \<Longrightarrow>
     state (runBreaker t []) = CircuitClosed
     \<and> timeout (runBreaker t es) = t
     \<and> sint (failureCount (runBreaker t es)) = int (consecutiveFailures es)
     \<and> (state (runBreaker t es) = CircuitClosed \<longleftrightarrow> consecutiveFailures es < 5)
     \<and> (state (runBreaker t es) = CircuitClosed \<longrightarrow>
          canExecute now (runBreaker t es) = (True, runBreaker t es))
     \<and> (state (runBreaker t es) = CircuitClosed \<longrightarrow>
          state (runBreaker t (es @ [RecordFailure now]))
            = (if consecutiveFailures es = 4 then CircuitOpen else CircuitClosed)
          \<and> lastFailureTime (runBreaker t (es @ [RecordFailure now])) = now)
     \<and> (state (runBreaker t es) = CircuitOpen \<and> now - lastFailureTime (runBreaker t es) \<le> t \<longrightarrow>
          canExecute now (runBreaker t es) = (False, runBreaker t es))
     \<and> (state (runBreaker t es) = CircuitOpen \<and> now - lastFailureTime (runBreaker t es) > t \<longrightarrow>
          canExecute now (runBreaker t es) = (True, (runBreaker t es)\<lparr>state := CircuitHalfOpen\<rparr>))
     \<and> (state (runBreaker t es) = CircuitHalfOpen \<longrightarrow>
          canExecute now (runBreaker t es) = (True, runBreaker t es))
     \<and> failureCount (runBreaker t (es @ [RecordSuccess])) = 0
     \<and> state (runBreaker t (es @ [RecordSuccess])) = CircuitClosed
     \<and> (state (runBreaker t es) = CircuitHalfOpen \<longrightarrow>
          state (runBreaker t (es @ [RecordFailure now])) = CircuitOpen
          \<and> lastFailureTime (runBreaker t (es @ [RecordFailure now])) = now)"
proof -
  assume len: "int (length es) < 2 ^ 63 - 1"
  note inv = breaker_invariant [OF len, of t]
  have "int (consecutiveFailures es) < 2 ^ 63 - 1"
    using consecutiveFailures_le [of es] len by linarith
  with inv have b: "sint (failureCount (runBreaker t es)) < 2 ^ 63 - 1" by simp
  note f = onFailure_state [OF b, of now]
  have c4: "(4 \<le> sint (failureCount (runBreaker t es))) = (4 \<le> consecutiveFailures es)"
    using inv by simp
  show ?thesis
    using inv f c4 canExecute_cases [of "runBreaker t es" now]
    by (auto simp: runBreaker_snoc onSuccess_def runBreaker_def [of t "[]"] newCircuitBreaker_def)
qed

text \<open>
  The run of five failures at the instants 1 to 5 with timeout 30: four leave the breaker
  closed, the fifth opens it; a check at 35 is rejected, one at 36 admits half-open; then
  a success closes it with counter 0, and a failure at 37 opens it again.
\<close>

theorem circuit_breaker_machine_witness:
  "int (length fiveFailures) < 2 ^ 63 - 1
   \<and> state (runBreaker 30 (butlast fiveFailures)) = CircuitClosed
   \<and> canExecute 5 (runBreaker 30 (butlast fiveFailures)) = (True, runBreaker 30 (butlast fiveFailures))
   \<and> state (runBreaker 30 fiveFailures) = CircuitOpen
   \<and> lastFailureTime (runBreaker 30 fiveFailures) = 5
   \<and> canExecute 35 (runBreaker 30 fiveFailures) = (False, runBreaker 30 fiveFailures)
   \<and> canExecute 36 (runBreaker 30 fiveFailures)
       = (True, (runBreaker 30 fiveFailures)\<lparr>state := CircuitHalfOpen\<rparr>)
   \<and> state (runBreaker 30 (fiveFailures @ [Admission 36])) = CircuitHalfOpen
   \<and> canExecute 36 (runBreaker 30 (fiveFailures @ [Admission 36]))
       = (True, runBreaker 30 (fiveFailures @ [Admission 36]))
   \<and> state (runBreaker 30 (fiveFailures @ [Admission 36] @ [RecordSuccess])) = CircuitClosed
   \<and> failureCount (runBreaker 30 (fiveFailures @ [Admission 36] @ [RecordSuccess])) = 0
   \<and> state (runBreaker 30 (fiveFailures @ [Admission 36] @ [RecordFailure 37])) = CircuitOpen
   \<and> lastFailureTime (runBreaker 30 (fiveFailures @ [Admission 36] @ [RecordFailure 37])) = 37"
  using circuit_breaker_machine [of "butlast fiveFailures" 30 5]
    circuit_breaker_machine [of fiveFailures 30 35]
    circuit_breaker_machine [of fiveFailures 30 36]
    circuit_breaker_machine [of "fiveFailures @ [Admission 36]" 30 37]
  by (simp add: fiveFailures_def runBreaker_def newCircuitBreaker_def onFailure_def onSuccess_def
      canExecute_def Let_def word_sle_eq consecutiveFailures_def)

section \<open>Properties of the retry loop\<close>

lemma retryLoop_3:
  "retryLoop u 3 lr le =
     (case attemptOutcome u 3 of
        TransportError e \<Rightarrow> \<lparr>resp = None, err = Some e, netEvents = [Do 3]\<rparr>
      | Response s \<Rightarrow> \<lparr>resp = Some s, err = None, netEvents = [Do 3]\<rparr>)"
  by (subst retryLoop.simps) (simp split: attempt.splits)

lemma retryLoop_2:
  "retryLoop u 2 lr le =
     (case attemptOutcome u 2 of
        TransportError e \<Rightarrow>
          if ctxDoneInWait u 2 then
            \<lparr>resp = None, err = Some (ContextErr (ctxErr u)), netEvents = [Do 2, WaitInterrupted 4]\<rparr>
          else before [Do 2, TimerFired 4] (retryLoop u 3 lr (Some e))
      | Response s \<Rightarrow>
          if \<not> isRetriableError s None then \<lparr>resp = Some s, err = None, netEvents = [Do 2]\<rparr>
          else if ctxDoneInWait u 2 then
            \<lparr>resp = None, err = Some (ContextErr (ctxErr u)), netEvents = [Do 2, WaitInterrupted 4]\<rparr>
          else before [Do 2, TimerFired 4] (retryLoop u 3 (Some s) le))"
  by (subst retryLoop.simps) (simp split: attempt.splits)

lemma retryLoop_1:
  "retryLoop u (Suc 0) lr le =
     (case attemptOutcome u (Suc 0) of
        TransportError e \<Rightarrow>
          if ctxDoneInWait u (Suc 0) then
            \<lparr>resp = None, err = Some (ContextErr (ctxErr u)),
             netEvents = [Do (Suc 0), WaitInterrupted (Suc 0)]\<rparr>
          else before [Do (Suc 0), TimerFired (Suc 0)] (retryLoop u 2 lr (Some e))
      | Response s \<Rightarrow>
          if \<not> isRetriableError s None then \<lparr>resp = Some s, err = None, netEvents = [Do (Suc 0)]\<rparr>
          else if ctxDoneInWait u (Suc 0) then
            \<lparr>resp = None, err = Some (ContextErr (ctxErr u)),
             netEvents = [Do (Suc 0), WaitInterrupted (Suc 0)]\<rparr>
          else before [Do (Suc 0), TimerFired (Suc 0)] (retryLoop u 2 (Some s) le))"
  by (subst retryLoop.simps) (simp add: numeral_2_eq_2 split: attempt.splits)

lemmas retry_unfold = makeRequestWithRetry_def retryLoop_1 retryLoop_2 retryLoop_3 before_def









lemma retry_final_response:
  "resp (makeRequestWithRetry u) = Some s \<Longrightarrow>
     (\<not> isRetriableError s None \<or> Do 3 \<in> set (netEvents (makeRequestWithRetry u)))
     \<and> err (makeRequestWithRetry u) = None"
  by (auto simp: retry_unfold split: attempt.splits if_splits)




section \<open>Properties of the proxy handler\<close>

lemma too_large_text: "Contains ''http: request body too large'' ''http: request body too large''"
  by simp

lemma too_large_status: "statusFor (''payload too large: '' @ ''http: request body too large'') = 500"
  by (simp add: statusFor_def)

lemma oversize_pipeline:
  "reqMethod r = ''POST'' \<Longrightarrow> reqBody r = Complete b \<Longrightarrow> length b > maxRequestBodySize \<Longrightarrow>
     processProxyRequest f env cfg cb r
       = fails cb (Wrap ''payload too large: '' (Err ''http: request body too large''))"
  using too_large_text by (simp add: processProxyRequest_def)

text \<open>
  C1. A POST whose body is longer than the cap of 5 MiB is admitted by the breaker and
  handled before the deadline. Reading the body fails with \<open>http: request body too
  large\<close>, the pipeline returns \<open>payload too large: http: request body too large\<close>, and no
  upstream request is issued. The handler's switch has no case for that text, so the
  status it writes is 500, not 413.
\<close>

theorem oversize_body_answered_500:
  "reqMethod r = ''POST'' \<Longrightarrow> reqBody r = Complete b \<Longrightarrow> length b > maxRequestBodySize \<Longrightarrow>
   fst (canExecute (admitTime env) cb) \<Longrightarrow> \<not> deadlineFirst env \<Longrightarrow>
     status (Handler f env cfg cb r) = Some 500
     \<and> status (Handler f env cfg cb r) \<noteq> Some 413
     \<and> upstreamTraffic (Handler f env cfg cb r) = []"
proof -
  assume a: "reqMethod r = ''POST''" "reqBody r = Complete b" "length b > maxRequestBodySize"
    and adm: "fst (canExecute (admitTime env) cb)" and dl: "\<not> deadlineFirst env"
  obtain cb' where c: "canExecute (admitTime env) cb = (True, cb')"
    using adm by (cases "canExecute (admitTime env) cb") simp
  have p: "processProxyRequest f (pipeline env) cfg cb' r
      = fails cb' (Wrap ''payload too large: '' (Err ''http: request body too large''))"
    using a by (rule oversize_pipeline)
  show ?thesis
    using too_large_status dl
    by (simp add: Handler_def c p fails_def respond_def)
qed

text \<open>The request with a body of 5 MiB + 1 octets, on a new breaker.\<close>

theorem oversize_body_answered_500_witness:
  "reqMethod oversizeRequest = ''POST''
   \<and> reqBody oversizeRequest = Complete (replicate (maxRequestBodySize + 1) (CHR ''a''))
   \<and> length (replicate (maxRequestBodySize + 1) (CHR ''a'')) > maxRequestBodySize
   \<and> fst (canExecute (admitTime healthyEnv) (newCircuitBreaker 30))
   \<and> \<not> deadlineFirst healthyEnv
   \<and> status (Handler specErrfmt healthyEnv someConfig (newCircuitBreaker 30) oversizeRequest) = Some 500
   \<and> upstreamTraffic (Handler specErrfmt healthyEnv someConfig (newCircuitBreaker 30) oversizeRequest) = []"
proof -
  have h: "reqMethod oversizeRequest = ''POST''"
    "reqBody oversizeRequest = Complete (replicate (maxRequestBodySize + 1) (CHR ''a''))"
    by (simp_all add: oversizeRequest_def)
  have l: "length (replicate (maxRequestBodySize + 1) (CHR ''a'')) > maxRequestBodySize"
    by (simp only: length_replicate)
  have c: "fst (canExecute (admitTime healthyEnv) (newCircuitBreaker 30))"
    by (simp add: canExecute_def newCircuitBreaker_def)
  have d: "\<not> deadlineFirst healthyEnv"
    by (simp add: healthyEnv_def)
  show ?thesis
    using oversize_body_answered_500 [OF h l c d, of specErrfmt someConfig] h l c d by blast
qed

section \<open>Properties of the token refresh\<close>






lemma refreshLoop_3:
  "refreshLoop env cfg 3 =
     (case getCopilotToken env 3 (GitHubToken cfg) of
        (Panicked v, evs) \<Rightarrow> \<lparr>result = Panicked v, cfgAfter = cfg, events = evs\<rparr>
      | (Returned (TokenFailed e), evs) \<Rightarrow> \<lparr>result = Returned (Some e), cfgAfter = cfg, events = evs\<rparr>
      | (Returned (TokenIssued copilotToken expiresAt refreshIn), evs) \<Rightarrow>
          storeToken env ''failed to update token in database: ''
            (cfg\<lparr>CopilotToken := copilotToken, ExpiresAt := expiresAt, RefreshIn := refreshIn\<rparr>) evs)"
  by (subst refreshLoop.simps) (simp split: prod.splits outcome.splits token_reply.splits)

lemma refreshLoop_2:
  "refreshLoop env cfg 2 =
     (case getCopilotToken env 2 (GitHubToken cfg) of
        (Panicked v, evs) \<Rightarrow> \<lparr>result = Panicked v, cfgAfter = cfg, events = evs\<rparr>
      | (Returned (TokenFailed e), evs) \<Rightarrow>
          if ctxDone env 2 then
            \<lparr>result = Returned (Some (ContextErr (ctxReason env))), cfgAfter = cfg,
             events = evs @ [SleepInterrupted 8]\<rparr>
          else after (evs @ [Slept 8]) (refreshLoop env cfg 3)
      | (Returned (TokenIssued copilotToken expiresAt refreshIn), evs) \<Rightarrow>
          storeToken env ''failed to update token in database: ''
            (cfg\<lparr>CopilotToken := copilotToken, ExpiresAt := expiresAt, RefreshIn := refreshIn\<rparr>) evs)"
  by (subst refreshLoop.simps) (simp split: prod.splits outcome.splits token_reply.splits)

lemma refreshLoop_1:
  "refreshLoop env cfg (Suc 0) =
     (case getCopilotToken env (Suc 0) (GitHubToken cfg) of
        (Panicked v, evs) \<Rightarrow> \<lparr>result = Panicked v, cfgAfter = cfg, events = evs\<rparr>
      | (Returned (TokenFailed e), evs) \<Rightarrow>
          if ctxDone env (Suc 0) then
            \<lparr>result = Returned (Some (ContextErr (ctxReason env))), cfgAfter = cfg,
             events = evs @ [SleepInterrupted 2]\<rparr>
          else after (evs @ [Slept 2]) (refreshLoop env cfg 2)
      | (Returned (TokenIssued copilotToken expiresAt refreshIn), evs) \<Rightarrow>
          storeToken env ''failed to update token in database: ''
            (cfg\<lparr>CopilotToken := copilotToken, ExpiresAt := expiresAt, RefreshIn := refreshIn\<rparr>) evs)"
  by (subst refreshLoop.simps) (simp add: numeral_2_eq_2 split: prod.splits outcome.splits token_reply.splits)

lemmas refresh_unfold = RefreshTokenWithContext_def refreshLoop_1 refreshLoop_2 refreshLoop_3
  getCopilotToken_def storeToken_def after_def

lemma refresh_requests_le:
  "length (filter isTokenRequest (events (RefreshTokenWithContext env cfg))) \<le> 3"
  by (simp add: refresh_unfold split: option.splits token_reply.splits)

lemma refresh_waits:
  "waits (events (RefreshTokenWithContext env cfg)) = []
   \<or> waits (events (RefreshTokenWithContext env cfg)) = [2]
   \<or> waits (events (RefreshTokenWithContext env cfg)) = [2, 8]"
  by (simp add: refresh_unfold split: option.splits token_reply.splits)

lemma refresh_interrupt:
  "afterInterrupt (events (RefreshTokenWithContext env cfg)) = None
   \<or> afterInterrupt (events (RefreshTokenWithContext env cfg)) = Some []
     \<and> result (RefreshTokenWithContext env cfg) = Returned (Some (ContextErr (ctxReason env)))"
  by (simp add: refresh_unfold split: option.splits token_reply.splits)

lemma refresh_cancel_first:
  "refreshFunc env = None \<Longrightarrow> 10 \<le> length (GitHubToken cfg) \<Longrightarrow>
   copilotReply env 1 = TokenFailed e1 \<Longrightarrow> ctxDone env 1 \<Longrightarrow>
     RefreshTokenWithContext env cfg
       = \<lparr>result = Returned (Some (ContextErr (ctxReason env))), cfgAfter = cfg,
          events = [CopilotTokenRequest, SleepInterrupted 2]\<rparr>"
  by (auto simp: refresh_unfold)

lemma refresh_cancel_second:
  "refreshFunc env = None \<Longrightarrow> 10 \<le> length (GitHubToken cfg) \<Longrightarrow>
   copilotReply env 1 = TokenFailed e1 \<Longrightarrow> \<not> ctxDone env 1 \<Longrightarrow>
   copilotReply env 2 = TokenFailed e2 \<Longrightarrow> ctxDone env 2 \<Longrightarrow>
     RefreshTokenWithContext env cfg
       = \<lparr>result = Returned (Some (ContextErr (ctxReason env))), cfgAfter = cfg,
          events = [CopilotTokenRequest, Slept 2, CopilotTokenRequest, SleepInterrupted 8]\<rparr>"
  by (auto simp: refresh_unfold)

lemma refresh_exhausted:
  "refreshFunc env = None \<Longrightarrow> 10 \<le> length (GitHubToken cfg) \<Longrightarrow>
   copilotReply env 1 = TokenFailed e1 \<Longrightarrow> \<not> ctxDone env 1 \<Longrightarrow>
   copilotReply env 2 = TokenFailed e2 \<Longrightarrow> \<not> ctxDone env 2 \<Longrightarrow>
   copilotReply env 3 = TokenFailed e3 \<Longrightarrow>
     RefreshTokenWithContext env cfg
       = \<lparr>result = Returned (Some e3), cfgAfter = cfg,
          events = [CopilotTokenRequest, Slept 2, CopilotTokenRequest, Slept 8, CopilotTokenRequest]\<rparr>"
  by (auto simp: refresh_unfold)

text \<open>
  C6, as stated, fails: when all three attempts fail under a live context, the routine
  waits 2 seconds after the first and 8 seconds after the second, and returns the third
  error at once. There is no third wait: 18 seconds are never waited.
\<close>

theorem refresh_has_no_third_wait:
  "events (RefreshTokenWithContext failingAuthEnv someConfig)
     = [CopilotTokenRequest, Slept 2, CopilotTokenRequest, Slept 8, CopilotTokenRequest]
   \<and> waits (events (RefreshTokenWithContext failingAuthEnv someConfig)) = [2, 8]
   \<and> waits (events (RefreshTokenWithContext failingAuthEnv someConfig)) \<noteq> [2, 8, 18]
   \<and> result (RefreshTokenWithContext failingAuthEnv someConfig) = Returned (Some (Err ''HTTP 500 response''))"
  by (simp add: refresh_unfold failingAuthEnv_def someConfig_def)

text \<open>
  C6, amended. Whatever the environment, \<open>RefreshTokenWithContext\<close> sends at most three
  requests for a Copilot token, and it waits at most twice: \<open>2 \<sqdot> 1\<^sup>2 = 2\<close> seconds after
  the first failed attempt and \<open>2 \<sqdot> 2\<^sup>2 = 8\<close> seconds after the second; a third failure
  is returned at once. A wait that the context interrupts is the last thing the routine
  does: nothing follows it, and the routine returns the context's error. In particular,
  with the retry loop in use and attempts failing, a context done during the first wait
  ends the routine after one request, and one done during the second wait ends it after
  two.
\<close>

theorem refresh_backoff:
  "length (filter isTokenRequest (events (RefreshTokenWithContext env cfg))) \<le> 3
   \<and> length (waits (events (RefreshTokenWithContext env cfg))) \<le> 2
   \<and> waits (events (RefreshTokenWithContext env cfg))
       = map (\<lambda>n. 2 * int n * int n) [1..<Suc (length (waits (events (RefreshTokenWithContext env cfg))))]
   \<and> (afterInterrupt (events (RefreshTokenWithContext env cfg)) = None
       \<or> afterInterrupt (events (RefreshTokenWithContext env cfg)) = Some []
         \<and> result (RefreshTokenWithContext env cfg) = Returned (Some (ContextErr (ctxReason env))))
   \<and> (refreshFunc env = None \<and> 10 \<le> length (GitHubToken cfg)
       \<and> copilotReply env 1 = TokenFailed e1 \<and> ctxDone env 1 \<longrightarrow>
         RefreshTokenWithContext env cfg
           = \<lparr>result = Returned (Some (ContextErr (ctxReason env))), cfgAfter = cfg,
              events = [CopilotTokenRequest, SleepInterrupted 2]\<rparr>)
   \<and> (refreshFunc env = None \<and> 10 \<le> length (GitHubToken cfg)
       \<and> copilotReply env 1 = TokenFailed e1 \<and> \<not> ctxDone env 1
       \<and> copilotReply env 2 = TokenFailed e2 \<and> ctxDone env 2 \<longrightarrow>
         RefreshTokenWithContext env cfg
           = \<lparr>result = Returned (Some (ContextErr (ctxReason env))), cfgAfter = cfg,
              events = [CopilotTokenRequest, Slept 2, CopilotTokenRequest, SleepInterrupted 8]\<rparr>)
   \<and> (refreshFunc env = None \<and> 10 \<le> length (GitHubToken cfg)
       \<and> copilotReply env 1 = TokenFailed e1 \<and> \<not> ctxDone env 1
       \<and> copilotReply env 2 = TokenFailed e2 \<and> \<not> ctxDone env 2
       \<and> copilotReply env 3 = TokenFailed e3 \<longrightarrow>
         RefreshTokenWithContext env cfg
           = \<lparr>result = Returned (Some e3), cfgAfter = cfg,
              events = [CopilotTokenRequest, Slept 2, CopilotTokenRequest, Slept 8, CopilotTokenRequest]\<rparr>)"
proof -
  have w: "length (waits (events (RefreshTokenWithContext env cfg))) \<le> 2
    \<and> waits (events (RefreshTokenWithContext env cfg))
       = map (\<lambda>n. 2 * int n * int n) [1..<Suc (length (waits (events (RefreshTokenWithContext env cfg))))]"
    using refresh_waits [of env cfg] by (auto simp: upt_rec)
  show ?thesis
    using refresh_requests_le [of env cfg] w refresh_interrupt [of env cfg]
      refresh_cancel_first [of env cfg e1] refresh_cancel_second [of env cfg e1 e2]
      refresh_exhausted [of env cfg e1 e2 e3]
    by blast
qed

text \<open>
  Every attempt fails: with a live context there are three requests and the waits 2 and
  8; with the context done during the first wait, one request; during the second, two.
\<close>

theorem refresh_backoff_witness:
  "refreshFunc (cancelledDuring 1) = None \<and> 10 \<le> length (GitHubToken someConfig)
   \<and> copilotReply (cancelledDuring 1) 1 = TokenFailed (Err ''HTTP 500 response'')
   \<and> ctxDone (cancelledDuring 1) 1
   \<and> RefreshTokenWithContext (cancelledDuring 1) someConfig
       = \<lparr>result = Returned (Some (ContextErr Canceled)), cfgAfter = someConfig,
          events = [CopilotTokenRequest, SleepInterrupted 2]\<rparr>
   \<and> \<not> ctxDone (cancelledDuring 2) 1 \<and> ctxDone (cancelledDuring 2) 2
   \<and> RefreshTokenWithContext (cancelledDuring 2) someConfig
       = \<lparr>result = Returned (Some (ContextErr Canceled)), cfgAfter = someConfig,
          events = [CopilotTokenRequest, Slept 2, CopilotTokenRequest, SleepInterrupted 8]\<rparr>
   \<and> RefreshTokenWithContext failingAuthEnv someConfig
       = \<lparr>result = Returned (Some (Err ''HTTP 500 response'')), cfgAfter = someConfig,
          events = [CopilotTokenRequest, Slept 2, CopilotTokenRequest, Slept 8, CopilotTokenRequest]\<rparr>"
  using refresh_backoff [of "cancelledDuring 1" someConfig "Err ''HTTP 500 response''"]
    refresh_backoff [of "cancelledDuring 2" someConfig "Err ''HTTP 500 response''" "Err ''HTTP 500 response''"]
    refresh_backoff [of failingAuthEnv someConfig "Err ''HTTP 500 response''" "Err ''HTTP 500 response''"
      "Err ''HTTP 500 response''"]
  by (simp add: cancelledDuring_def failingAuthEnv_def someConfig_def)

section \<open>Properties of the device flow, stage 2\<close>

lemma pollWaits_append: "pollWaits (xs @ ys) = pollWaits xs @ pollWaits ys"
  by (induction xs rule: pollWaits.induct) simp_all

lemma pollIteration_events:
  "snd (pollIteration env iv i) = [PollWaitCancelled (pollDelay iv)]
   \<or> snd (pollIteration env iv i) = [PollWaited (pollDelay iv), TokenPoll]"
  by (simp add: pollIteration_def split: poll_reply.splits)

lemma pollIteration_Continue:
  "fst (pollIteration env iv i) = Continue \<Longrightarrow>
     snd (pollIteration env iv i) = [PollWaited (pollDelay iv), TokenPoll]"
  by (simp add: pollIteration_def split: poll_reply.splits if_splits)

lemma pollLoop_Suc:
  "pollLoop env iv (Suc n) i =
     (case fst (pollIteration env iv i) of
        Break r \<Rightarrow> \<lparr>token = Returned r, pollEvents = snd (pollIteration env iv i)\<rparr>
      | Continue \<Rightarrow> afterPoll (snd (pollIteration env iv i)) (pollLoop env iv n (Suc i)))"
  by (cases "pollIteration env iv i") (simp split: loop_step.splits)

lemma pollLoop_bounds:
  "length (filter isPoll (pollEvents (pollLoop env iv n i))) \<le> n
   \<and> length (pollWaits (pollEvents (pollLoop env iv n i))) \<le> n
   \<and> list_all (\<lambda>d. d = pollDelay iv) (pollWaits (pollEvents (pollLoop env iv n i)))"
proof (induction n arbitrary: i)
  case 0
  show ?case by simp
next
  case (Suc n)
  show ?case
  proof (cases "fst (pollIteration env iv i)")
    case Continue
    then show ?thesis
      using Suc [of "Suc i"] pollIteration_Continue [OF Continue]
      by (simp add: afterPoll_def pollWaits_append del: pollLoop.simps add: pollLoop_Suc)
  next
    case (Break r)
    then show ?thesis
      using pollIteration_events [of env iv i]
      by (auto simp del: pollLoop.simps simp add: pollLoop_Suc)
  qed
qed

lemma pollLoop_all_continue:
  "(\<And>j. fst (pollIteration env iv j) = Continue) \<Longrightarrow>
     token (pollLoop env iv n i) = Returned (Inl (AuthError ''authentication timed out'' None))
     \<and> length (filter isPoll (pollEvents (pollLoop env iv n i))) = n"
proof (induction n arbitrary: i)
  case 0
  show ?case by simp
next
  case (Suc n)
  then show ?case
    using pollIteration_Continue [of env iv i]
    by (simp add: afterPoll_def del: pollLoop.simps add: pollLoop_Suc)
qed

lemma pollLoop_break:
  "k < n \<Longrightarrow> (\<And>j. j < k \<Longrightarrow> fst (pollIteration env iv (i + j)) = Continue) \<Longrightarrow>
   fst (pollIteration env iv (i + k)) = Break r \<Longrightarrow>
     token (pollLoop env iv n i) = Returned r"
proof (induction k arbitrary: n i)
  case 0
  then obtain m where n: "n = Suc m" by (cases n) simp_all
  from 0 show ?case by (simp add: n del: pollLoop.simps add: pollLoop_Suc)
next
  case (Suc k)
  then obtain m where n: "n = Suc m" by (cases n) simp_all
  have c: "fst (pollIteration env iv i) = Continue" using Suc.prems(2) [of 0] by simp
  have "token (pollLoop env iv m (Suc i)) = Returned r"
  proof (rule Suc.IH)
    show "k < m" using Suc.prems(1) n by simp
    show "fst (pollIteration env iv (Suc i + j)) = Continue" if "j < k" for j
      using Suc.prems(2) [of "Suc j"] that by simp
    show "fst (pollIteration env iv (Suc i + k)) = Break r"
      using Suc.prems(3) by simp
  qed
  then show ?case
    by (simp add: n c afterPoll_def del: pollLoop.simps add: pollLoop_Suc)
qed

lemma sdiv_nonneg_pos: "0 \<le> k \<Longrightarrow> 0 < l \<Longrightarrow> k sdiv l = k div l" for k l :: int
  by (cases "k = 0") (simp_all add: signed_divide_int_def sgn_if)

lemma sdiv_pos_bounds: "0 < l \<Longrightarrow> - \<bar>k\<bar> \<le> k sdiv l \<and> k sdiv l \<le> \<bar>k\<bar>" for k l :: int
proof -
  assume l: "0 < l"
  have a: "0 \<le> \<bar>k\<bar> div l" using l by (simp add: pos_imp_zdiv_nonneg_iff)
  have "\<bar>k\<bar> div l \<le> \<bar>k\<bar> div 1" using l by (intro zdiv_mono2) simp_all
  then have b: "\<bar>k\<bar> div l \<le> \<bar>k\<bar>" by simp
  show ?thesis using a b l by (auto simp: signed_divide_int_def sgn_if abs_if split: if_splits)
qed

lemma sint_maxIterations:
  assumes "0 < sint interval" "sint expiresIn sdiv sint interval < 2 ^ 63 - 1"
  shows "sint (maxIterations interval expiresIn) = sint expiresIn sdiv sint interval + 1"
proof -
  let ?q = "sint expiresIn sdiv sint interval"
  have "- \<bar>sint expiresIn\<bar> \<le> ?q" using sdiv_pos_bounds [OF assms(1)] by blast
  moreover have "\<bar>sint expiresIn\<bar> \<le> 2 ^ 63"
    using sint_ge [of expiresIn] sint_lt [of expiresIn] by simp
  ultimately have q0: "- (2 ^ 63) \<le> ?q" by linarith
  have q1: "?q < 2 ^ 63" using assms(2) by simp
  have s: "sint (word_of_int ?q :: 64 word) = ?q"
    using q0 q1 by (simp add: sint_sbintrunc' signed_take_bit_int_eq_self)
  have "sint ((word_of_int ?q :: 64 word) + 1) = ?q + 1"
    using sint_succ64 [of "word_of_int ?q"] s assms(2) by simp
  then show ?thesis
    by (simp add: maxIterations_def)
qed

lemma sint_maxIterations_wraps:
  assumes "sint expiresIn sdiv sint interval = 2 ^ 63 - 1"
  shows "sint (maxIterations interval expiresIn) = - (2 ^ 63)"
  by (simp add: maxIterations_def assms)

lemma pollDelay_seconds:
  assumes "- 9223372036 \<le> sint interval" "sint interval \<le> 9223372036"
  shows "sint (pollDelay interval) = sint interval * 1000000000"
proof -
  have "sint (pollDelay interval) = signed_take_bit 63 (sint interval * 1000000000)"
    by (simp add: pollDelay_def sint_word_ariths)
  also have "\<dots> = sint interval * 1000000000"
    using assms by (intro signed_take_bit_int_eq_self) simp_all
  finally show ?thesis .
qed

text \<open>
  C7, as stated, fails: with \<open>expires_in = 10\<close>, \<open>interval = 3\<close> and an upstream that
  keeps answering \<open>authorization_pending\<close>, the loop polls four times and then times out,
  while \<open>\<lceil>10/3\<rceil> + 1 = 5\<close>.
\<close>

theorem poll_iterations_not_ceiling:
  "length (filter isPoll (pollEvents (pollForGitHubTokenWithContext failingAuthEnv 3 10))) = 4
   \<and> token (pollForGitHubTokenWithContext failingAuthEnv 3 10)
       = Returned (Inl (AuthError ''authentication timed out'' None))
   \<and> specMaxIterations 3 10 = 5"
proof -
  have c: "fst (pollIteration failingAuthEnv 3 j) = Continue" for j
    by (simp add: pollIteration_def failingAuthEnv_def pollVerdict_def)
  have m: "nat (sint (maxIterations 3 10)) = 4"
    by (simp add: maxIterations_def signed_divide_int_def)
  show ?thesis
    using pollLoop_all_continue [of failingAuthEnv 3 4 0, OF c]
    by (simp add: pollForGitHubTokenWithContext_def m specMaxIterations_def)
qed

lemma pollIteration_cases:
  "(ctxDone env i \<longrightarrow>
      pollIteration env interval i
        = (Break (Inl (ContextErr (ctxReason env))), [PollWaitCancelled (pollDelay interval)]))
   \<and> (\<not> ctxDone env i \<and> pollReply env i = PollResponse tok ''authorization_pending'' desc \<longrightarrow>
        fst (pollIteration env interval i) = Continue)
   \<and> (\<not> ctxDone env i \<and> pollReply env i = PollResponse tok er desc \<and> er \<noteq> []
        \<and> er \<noteq> ''authorization_pending'' \<longrightarrow>
        fst (pollIteration env interval i)
          = Break (Inl (AuthError (''authorization failed: '' @ er @ '' - '' @ desc) None)))
   \<and> (\<not> ctxDone env i \<and> pollReply env i = PollResponse tok [] desc \<and> tok \<noteq> [] \<longrightarrow>
        fst (pollIteration env interval i) = Break (Inr tok))
   \<and> (\<not> ctxDone env i \<and> (pollReply env i = PollTransportError e \<or> pollReply env i = PollDecodeError e
        \<or> pollReply env i = PollResponse [] [] desc) \<longrightarrow>
        fst (pollIteration env interval i) = Continue)"
  by (auto simp: pollIteration_def pollVerdict_def)

lemma poll_count:
  assumes "0 < sint interval" "sint expiresIn sdiv sint interval < 2 ^ 63 - 1"
  shows "int (nat (sint (maxIterations interval expiresIn)))
         = max 0 (sint expiresIn sdiv sint interval + 1)"
  using sint_maxIterations [OF assms] by simp

lemma poll_count_wraps:
  assumes "sint expiresIn sdiv sint interval = 2 ^ 63 - 1"
  shows "nat (sint (maxIterations interval expiresIn)) = 0"
  using sint_maxIterations_wraps [OF assms] by simp

text \<open>
  C7, amended. Let the interval be positive, and \<open>q\<close> the quotient of \<open>expires_in\<close> by the
  interval, truncated towards zero: \<open>\<lfloor>expires_in / interval\<rfloor>\<close> when \<open>expires_in\<close> is
  not negative.

  \<^item> When \<open>q\<close> is below the largest \<open>int64\<close>, polling runs at most \<open>q + 1\<close> iterations (none
    when \<open>q + 1\<close> is not positive), and exactly that many, ending in the time-out error,
    when every iteration continues. The first iteration that does not continue, if it is
    within that bound, decides the result.
  \<^item> When \<open>q\<close> is the largest \<open>int64\<close> (\<open>expires_in\<close> is, and the interval is 1), \<open>q + 1\<close>
    wraps around to a negative count: no iteration runs, and the result is the time-out
    error.
  \<^item> Every iteration starts with a wait of \<open>time.Duration(interval) * time.Second\<close>, the
    product taken in \<open>int64\<close> nanoseconds; that is \<open>interval\<close> seconds when the interval
    is at most 9223372036, and wraps around above.
  \<^item> In an iteration: a context done during the wait ends the polling with the context's
    error before any request; \<open>authorization_pending\<close> continues; any other non-empty
    error ends with an \<open>AuthError\<close>; an empty error with a non-empty access token returns
    the token; a transport error, an undecodable body or a reply with neither error nor
    token continues.
\<close>

theorem poll_iterations:
  "0 < sint interval \<Longrightarrow>
     (0 \<le> sint expiresIn \<longrightarrow>
        sint expiresIn sdiv sint interval = sint expiresIn div sint interval)
     \<and> (sint expiresIn sdiv sint interval < 2 ^ 63 - 1 \<longrightarrow>
          int (length (filter isPoll (pollEvents (pollForGitHubTokenWithContext env interval expiresIn))))
            \<le> max 0 (sint expiresIn sdiv sint interval + 1)
          \<and> int (length (pollWaits (pollEvents (pollForGitHubTokenWithContext env interval expiresIn))))
            \<le> max 0 (sint expiresIn sdiv sint interval + 1)
          \<and> ((\<forall>j. fst (pollIteration env interval j) = Continue) \<longrightarrow>
               int (length (filter isPoll (pollEvents (pollForGitHubTokenWithContext env interval expiresIn))))
                 = max 0 (sint expiresIn sdiv sint interval + 1)
               \<and> token (pollForGitHubTokenWithContext env interval expiresIn)
                 = Returned (Inl (AuthError ''authentication timed out'' None)))
          \<and> (int k \<le> sint expiresIn sdiv sint interval
               \<and> (\<forall>j<k. fst (pollIteration env interval j) = Continue)
               \<and> fst (pollIteration env interval k) = Break res \<longrightarrow>
               token (pollForGitHubTokenWithContext env interval expiresIn) = Returned res))
     \<and> (sint expiresIn sdiv sint interval = 2 ^ 63 - 1 \<longrightarrow>
          pollForGitHubTokenWithContext env interval expiresIn
            = \<lparr>token = Returned (Inl (AuthError ''authentication timed out'' None)), pollEvents = []\<rparr>)
     \<and> list_all (\<lambda>d. d = pollDelay interval)
          (pollWaits (pollEvents (pollForGitHubTokenWithContext env interval expiresIn)))
     \<and> (sint interval \<le> 9223372036 \<longrightarrow> sint (pollDelay interval) = sint interval * 1000000000)
     \<and> (ctxDone env i \<longrightarrow>
          pollIteration env interval i
            = (Break (Inl (ContextErr (ctxReason env))), [PollWaitCancelled (pollDelay interval)]))
     \<and> (\<not> ctxDone env i \<longrightarrow>
          snd (pollIteration env interval i) = [PollWaited (pollDelay interval), TokenPoll])
     \<and> (\<not> ctxDone env i \<and> pollReply env i = PollResponse tok ''authorization_pending'' desc \<longrightarrow>
          fst (pollIteration env interval i) = Continue)
     \<and> (\<not> ctxDone env i \<and> pollReply env i = PollResponse tok er desc \<and> er \<noteq> []
          \<and> er \<noteq> ''authorization_pending'' \<longrightarrow>
          fst (pollIteration env interval i)
            = Break (Inl (AuthError (''authorization failed: '' @ er @ '' - '' @ desc) None)))
     \<and> (\<not> ctxDone env i \<and> pollReply env i = PollResponse tok [] desc \<and> tok \<noteq> [] \<longrightarrow>
          fst (pollIteration env interval i) = Break (Inr tok))
     \<and> (\<not> ctxDone env i \<and> (pollReply env i = PollTransportError e \<or> pollReply env i = PollDecodeError e
          \<or> pollReply env i = PollResponse [] [] desc) \<longrightarrow>
          fst (pollIteration env interval i) = Continue)"
proof -
  assume a: "0 < sint interval"
  define n where "n = nat (sint (maxIterations interval expiresIn))"
  have z: "interval \<noteq> 0" using a by auto
  have p: "pollForGitHubTokenWithContext env interval expiresIn = pollLoop env interval n 0"
    using z by (simp add: pollForGitHubTokenWithContext_def n_def)
  have fl: "0 \<le> sint expiresIn \<longrightarrow>
      sint expiresIn sdiv sint interval = sint expiresIn div sint interval"
    using a by (simp add: sdiv_nonneg_pos)
  have b0: "length (filter isPoll (pollEvents (pollLoop env interval n 0))) \<le> n"
    "length (pollWaits (pollEvents (pollLoop env interval n 0))) \<le> n"
    "list_all (\<lambda>d. d = pollDelay interval) (pollWaits (pollEvents (pollLoop env interval n 0)))"
    using pollLoop_bounds [of env interval n 0] by blast+
  have b: "int (length (filter isPoll (pollEvents (pollLoop env interval n 0)))) \<le> int n"
    "int (length (pollWaits (pollEvents (pollLoop env interval n 0)))) \<le> int n"
    using b0 by (simp_all only: of_nat_le_iff)
  have c: "(\<forall>j. fst (pollIteration env interval j) = Continue) \<longrightarrow>
      int (length (filter isPoll (pollEvents (pollLoop env interval n 0)))) = int n
      \<and> token (pollLoop env interval n 0) = Returned (Inl (AuthError ''authentication timed out'' None))"
    using pollLoop_all_continue [of env interval n 0] by simp
  have d: "int k < int n
      \<and> (\<forall>j<k. fst (pollIteration env interval j) = Continue)
      \<and> fst (pollIteration env interval k) = Break res \<longrightarrow>
      token (pollLoop env interval n 0) = Returned res"
  proof (intro impI, elim conjE)
    assume k: "int k < int n"
      and co: "\<forall>j<k. fst (pollIteration env interval j) = Continue"
      and br: "fst (pollIteration env interval k) = Break res"
    have "k < n" using k by simp
    then show "token (pollLoop env interval n 0) = Returned res"
      using co br by (intro pollLoop_break [of k]) simp_all
  qed
  have main: "sint expiresIn sdiv sint interval < 2 ^ 63 - 1 \<longrightarrow>
      int (length (filter isPoll (pollEvents (pollLoop env interval n 0))))
        \<le> max 0 (sint expiresIn sdiv sint interval + 1)
      \<and> int (length (pollWaits (pollEvents (pollLoop env interval n 0))))
        \<le> max 0 (sint expiresIn sdiv sint interval + 1)
      \<and> ((\<forall>j. fst (pollIteration env interval j) = Continue) \<longrightarrow>
           int (length (filter isPoll (pollEvents (pollLoop env interval n 0))))
             = max 0 (sint expiresIn sdiv sint interval + 1)
           \<and> token (pollLoop env interval n 0)
             = Returned (Inl (AuthError ''authentication timed out'' None)))
      \<and> (int k \<le> sint expiresIn sdiv sint interval
           \<and> (\<forall>j<k. fst (pollIteration env interval j) = Continue)
           \<and> fst (pollIteration env interval k) = Break res \<longrightarrow>
           token (pollLoop env interval n 0) = Returned res)"
  proof
    assume q: "sint expiresIn sdiv sint interval < 2 ^ 63 - 1"
    have n: "int n = max 0 (sint expiresIn sdiv sint interval + 1)"
      unfolding n_def using a q by (rule poll_count)
    have kn: "int k \<le> sint expiresIn sdiv sint interval \<Longrightarrow> int k < int n"
      using n by linarith
    show "int (length (filter isPoll (pollEvents (pollLoop env interval n 0))))
        \<le> max 0 (sint expiresIn sdiv sint interval + 1)
      \<and> int (length (pollWaits (pollEvents (pollLoop env interval n 0))))
        \<le> max 0 (sint expiresIn sdiv sint interval + 1)
      \<and> ((\<forall>j. fst (pollIteration env interval j) = Continue) \<longrightarrow>
           int (length (filter isPoll (pollEvents (pollLoop env interval n 0))))
             = max 0 (sint expiresIn sdiv sint interval + 1)
           \<and> token (pollLoop env interval n 0)
             = Returned (Inl (AuthError ''authentication timed out'' None)))
      \<and> (int k \<le> sint expiresIn sdiv sint interval
           \<and> (\<forall>j<k. fst (pollIteration env interval j) = Continue)
           \<and> fst (pollIteration env interval k) = Break res \<longrightarrow>
           token (pollLoop env interval n 0) = Returned res)"
      using b c d kn unfolding n [symmetric] by blast
  qed
  have w: "sint expiresIn sdiv sint interval = 2 ^ 63 - 1 \<longrightarrow>
      pollLoop env interval n 0
        = \<lparr>token = Returned (Inl (AuthError ''authentication timed out'' None)), pollEvents = []\<rparr>"
  proof
    assume "sint expiresIn sdiv sint interval = 2 ^ 63 - 1"
    then have "n = 0" unfolding n_def by (rule poll_count_wraps)
    then show "pollLoop env interval n 0
        = \<lparr>token = Returned (Inl (AuthError ''authentication timed out'' None)), pollEvents = []\<rparr>"
      by simp
  qed
  have s: "sint interval \<le> 9223372036 \<longrightarrow> sint (pollDelay interval) = sint interval * 1000000000"
    using a by (simp add: pollDelay_seconds)
  have e: "\<not> ctxDone env i \<longrightarrow>
      snd (pollIteration env interval i) = [PollWaited (pollDelay interval), TokenPoll]"
    by (simp add: pollIteration_def split: poll_reply.splits)
  show ?thesis
    unfolding p
    using fl main w b0(3) s e pollIteration_cases [of env i interval tok desc er e]
    by (intro conjI) blast+
qed

text \<open>
  With \<open>expires_in = 900\<close> and \<open>interval = 5\<close>: the quotient is 180, an upstream that stays
  pending is polled 181 times, each wait is 5000000000 nanoseconds; one that approves at
  the third poll yields its token; a context done during the second wait yields the
  context's error. With \<open>expires_in = -10\<close>, and with the largest \<open>expires_in\<close> and
  \<open>interval = 1\<close>, no poll is made.
\<close>

theorem poll_iterations_witness:
  "0 < sint (5 :: 64 word) \<and> 0 \<le> sint (900 :: 64 word)
   \<and> sint (900 :: 64 word) sdiv sint (5 :: 64 word) = 180
   \<and> sint (5 :: 64 word) \<le> 9223372036
   \<and> int (length (filter isPoll (pollEvents (pollForGitHubTokenWithContext failingAuthEnv 5 900)))) = 181
   \<and> token (pollForGitHubTokenWithContext failingAuthEnv 5 900)
       = Returned (Inl (AuthError ''authentication timed out'' None))
   \<and> sint (pollDelay 5) = 5000000000
   \<and> token (pollForGitHubTokenWithContext approvedAtThirdPoll 5 900) = Returned (Inr ''gho_0123456789'')
   \<and> token (pollForGitHubTokenWithContext (cancelledDuring 1) 5 900) = Returned (Inl (ContextErr Canceled))
   \<and> sint (- 10 :: 64 word) sdiv sint (5 :: 64 word) = - 2
   \<and> int (length (filter isPoll (pollEvents (pollForGitHubTokenWithContext failingAuthEnv 5 (- 10))))) = 0
   \<and> 0 < sint (1 :: 64 word)
   \<and> sint (9223372036854775807 :: 64 word) sdiv sint (1 :: 64 word) = 2 ^ 63 - 1
   \<and> pollEvents (pollForGitHubTokenWithContext failingAuthEnv 1 9223372036854775807) = []"
proof -
  have h: "0 < sint (5 :: 64 word)" "0 < sint (1 :: 64 word)" "0 \<le> sint (900 :: 64 word)"
    "sint (5 :: 64 word) \<le> 9223372036"
    by simp_all
  have q: "sint (900 :: 64 word) sdiv sint (5 :: 64 word) = 180"
    "sint (- 10 :: 64 word) sdiv sint (5 :: 64 word) = - 2"
    "sint (9223372036854775807 :: 64 word) sdiv sint (1 :: 64 word) = 2 ^ 63 - 1"
    by (simp_all add: signed_divide_int_def)
  have c: "\<forall>j. fst (pollIteration failingAuthEnv 5 j) = Continue"
    by (simp add: pollIteration_def failingAuthEnv_def pollVerdict_def)
  have a: "\<forall>j<2. fst (pollIteration approvedAtThirdPoll 5 j) = Continue"
    "fst (pollIteration approvedAtThirdPoll 5 2) = Break (Inr ''gho_0123456789'')"
    by (simp_all add: pollIteration_def approvedAtThirdPoll_def failingAuthEnv_def pollVerdict_def)
  have x: "\<forall>j<1. fst (pollIteration (cancelledDuring 1) 5 j) = Continue"
    "fst (pollIteration (cancelledDuring 1) 5 1) = Break (Inl (ContextErr Canceled))"
    by (simp_all add: pollIteration_def cancelledDuring_def failingAuthEnv_def pollVerdict_def)
  show ?thesis
    using poll_iterations [where env = failingAuthEnv and expiresIn = 900, OF h(1)]
      poll_iterations [where env = approvedAtThirdPoll and expiresIn = 900 and k = 2
        and res = "Inr ''gho_0123456789''", OF h(1)]
      poll_iterations [where env = "cancelledDuring 1" and expiresIn = 900 and k = 1
        and res = "Inl (ContextErr Canceled)", OF h(1)]
      poll_iterations [where env = failingAuthEnv and expiresIn = "- 10", OF h(1)]
      poll_iterations [where env = failingAuthEnv and expiresIn = 9223372036854775807, OF h(2)]
      h q c a x
    by simp
qed

section \<open>Properties of the stage-2 handler\<close>

lemma sless_zero: "(0 <s a) = (\<not> a \<le>s 0)" for a :: "64 word"
  by (auto simp: word_sle_eq word_sless_alt)

lemma stage2_valid:
  "s2Method r = ''POST'' \<Longrightarrow> s2Body r = Complete body \<Longrightarrow> decodeStage2 env body = Inr req \<Longrightarrow>
   Email req \<noteq> [] \<Longrightarrow> isValidEmail (Email req) \<Longrightarrow> DeviceCode req \<noteq> [] \<Longrightarrow> 0 <s Interval req \<Longrightarrow>
     Stage2Handler f env cfg r = completeStage2 f (authEnv env) cfg req"
  by (simp add: Stage2Handler_def sless_zero)

lemma single_check_polls_once:
  "length (filter isPoll (events (AuthenticateStage2 env iv ex cfg False))) = 1"
  by (simp add: AuthenticateStage2_def checkGitHubTokenOnce_def exchangeAndStore_def
      getCopilotToken_def storeToken_def after_def Let_def
      split: poll_reply.splits token_reply.splits option.splits)

lemma single_check_pending:
  "pollReply env 0 = PollResponse tok ''authorization_pending'' desc \<Longrightarrow>
     AuthenticateStage2 env iv ex cfg False
       = \<lparr>result = Returned (Some (Wrap ''failed to check GitHub token: ''
                                     (AuthError ''authorization_pending'' None))),
          cfgAfter = cfg, events = [TokenPoll]\<rparr>"
  by (simp add: AuthenticateStage2_def checkGitHubTokenOnce_def Let_def)

lemma completeStage2_failure:
  "\<not> PollMode req \<Longrightarrow>
   result (AuthenticateStage2 env (Interval req) (ExpiresIn req) cfg False) = Returned (Some e) \<Longrightarrow>
     reply (completeStage2 f env cfg req)
       = Returned (if Contains (Error f e) ''authorization_pending''
                   then \<lparr>code = 202, success = False, errorField = ''authorization_pending''\<rparr>
                   else \<lparr>code = 500, success = False, errorField = Error f e\<rparr>)"
  by (simp add: completeStage2_def Let_def sendStage2PendingResponse_def sendStage2ErrorResponse_def)

lemma completeStage2_events:
  "\<not> PollMode req \<Longrightarrow>
     length (filter isPoll (stage2Events (completeStage2 f env cfg req))) = 1"
  using single_check_polls_once [of env "Interval req" "ExpiresIn req" cfg]
  by (simp add: completeStage2_def Let_def split: outcome.splits option.splits sum.splits)

lemma single_check_transport:
  "pollReply env 0 = PollTransportError e \<Longrightarrow>
     AuthenticateStage2 env iv ex cfg False
       = \<lparr>result = Returned (Some (Wrap ''failed to check GitHub token: '' e)),
          cfgAfter = cfg, events = [TokenPoll]\<rparr>"
  by (simp add: AuthenticateStage2_def checkGitHubTokenOnce_def Let_def)

text \<open>
  C8. For a well-formed stage-2 request in single-check mode, the token URL is polled
  exactly once, and an upstream that answers \<open>authorization_pending\<close> makes stage 2 fail
  with an \<open>AuthError\<close> whose message is that literal. The handler, though, decides between
  202 and 500 on the text of the failure: it answers 202 when the text contains
  \<open>authorization_pending\<close>, and 500 with the text otherwise. So a failure of the request
  itself, which is not \<open>authorization_pending\<close>, is answered 202 and not 500 when its text
  contains the literal; it is answered 500 when its text does not.
\<close>

theorem stage2_single_check:
  "s2Method r = ''POST'' \<Longrightarrow> s2Body r = Complete body \<Longrightarrow> decodeStage2 env body = Inr req \<Longrightarrow>
   Email req \<noteq> [] \<Longrightarrow> isValidEmail (Email req) \<Longrightarrow> DeviceCode req \<noteq> [] \<Longrightarrow> 0 <s Interval req \<Longrightarrow>
   \<not> PollMode req \<Longrightarrow>
     length (filter isPoll (stage2Events (Stage2Handler f env cfg r))) = 1
     \<and> (pollReply (authEnv env) 0 = PollResponse tok ''authorization_pending'' desc \<longrightarrow>
          result (AuthenticateStage2 (authEnv env) (Interval req) (ExpiresIn req) cfg False)
            = Returned (Some (Wrap ''failed to check GitHub token: ''
                                (AuthError ''authorization_pending'' None))))
     \<and> (pollReply (authEnv env) 0 = PollTransportError (Err s) \<longrightarrow>
          result (AuthenticateStage2 (authEnv env) (Interval req) (ExpiresIn req) cfg False)
            = Returned (Some (Wrap ''failed to check GitHub token: '' (Err s)))
          \<and> reply (Stage2Handler f env cfg r)
            = Returned (if Contains (''failed to check GitHub token: '' @ s) ''authorization_pending''
                        then \<lparr>code = 202, success = False, errorField = ''authorization_pending''\<rparr>
                        else \<lparr>code = 500, success = False,
                              errorField = ''failed to check GitHub token: '' @ s\<rparr>))
     \<and> (result (AuthenticateStage2 (authEnv env) (Interval req) (ExpiresIn req) cfg False)
            = Returned (Some e) \<longrightarrow>
          reply (Stage2Handler f env cfg r)
            = Returned (if Contains (Error f e) ''authorization_pending''
                        then \<lparr>code = 202, success = False, errorField = ''authorization_pending''\<rparr>
                        else \<lparr>code = 500, success = False, errorField = Error f e\<rparr>))"
proof -
  assume v: "s2Method r = ''POST''" "s2Body r = Complete body" "decodeStage2 env body = Inr req"
    "Email req \<noteq> []" "isValidEmail (Email req)" "DeviceCode req \<noteq> []" "0 <s Interval req"
    and m: "\<not> PollMode req"
  have h: "Stage2Handler f env cfg r = completeStage2 f (authEnv env) cfg req"
    using v by (rule stage2_valid)
  have p: "pollReply (authEnv env) 0 = PollResponse tok ''authorization_pending'' desc \<longrightarrow>
      result (AuthenticateStage2 (authEnv env) (Interval req) (ExpiresIn req) cfg False)
        = Returned (Some (Wrap ''failed to check GitHub token: '' (AuthError ''authorization_pending'' None)))"
    using single_check_pending [of "authEnv env" tok desc] by simp
  have t: "pollReply (authEnv env) 0 = PollTransportError (Err s) \<longrightarrow>
      result (AuthenticateStage2 (authEnv env) (Interval req) (ExpiresIn req) cfg False)
        = Returned (Some (Wrap ''failed to check GitHub token: '' (Err s)))
      \<and> reply (completeStage2 f (authEnv env) cfg req)
        = Returned (if Contains (''failed to check GitHub token: '' @ s) ''authorization_pending''
                    then \<lparr>code = 202, success = False, errorField = ''authorization_pending''\<rparr>
                    else \<lparr>code = 500, success = False,
                          errorField = ''failed to check GitHub token: '' @ s\<rparr>)"
  proof
    assume q: "pollReply (authEnv env) 0 = PollTransportError (Err s)"
    have r: "result (AuthenticateStage2 (authEnv env) (Interval req) (ExpiresIn req) cfg False)
        = Returned (Some (Wrap ''failed to check GitHub token: '' (Err s)))"
      using single_check_transport [OF q] by simp
    have x: "Error f (Wrap ''failed to check GitHub token: '' (Err s))
        = ''failed to check GitHub token: '' @ s"
      by simp
    show "result (AuthenticateStage2 (authEnv env) (Interval req) (ExpiresIn req) cfg False)
        = Returned (Some (Wrap ''failed to check GitHub token: '' (Err s)))
      \<and> reply (completeStage2 f (authEnv env) cfg req)
        = Returned (if Contains (''failed to check GitHub token: '' @ s) ''authorization_pending''
                    then \<lparr>code = 202, success = False, errorField = ''authorization_pending''\<rparr>
                    else \<lparr>code = 500, success = False,
                          errorField = ''failed to check GitHub token: '' @ s\<rparr>)"
      using r completeStage2_failure [OF m r, of f] by (simp only: x)
  qed
  show ?thesis
    unfolding h
    using completeStage2_events [OF m, of f "authEnv env" cfg] p t
      completeStage2_failure [OF m, of "authEnv env" cfg e f]
    by blast
qed

text \<open>
  The single check meets a proxy that refuses the tunnel with the status text
  \<open>authorization_pending\<close>: one poll, and the answer is 202, whatever the texts of the error
  types. It meets a connection that times out: the answer is 500. It meets a pending
  authorization: stage 2 fails with the \<open>AuthError\<close> of that message.
\<close>

theorem stage2_single_check_witness:
  "s2Method singleCheckHttp = ''POST'' \<and> s2Body singleCheckHttp = Complete ''{}''
   \<and> decodeStage2 refusedStage2Env ''{}'' = Inr singleCheck
   \<and> Email singleCheck \<noteq> [] \<and> isValidEmail (Email singleCheck) \<and> DeviceCode singleCheck \<noteq> []
   \<and> 0 <s Interval singleCheck \<and> \<not> PollMode singleCheck
   \<and> pollReply (authEnv refusedStage2Env) 0 = PollTransportError refusedByProxy
   \<and> (\<forall>f. length (filter isPoll (stage2Events (Stage2Handler f refusedStage2Env someConfig singleCheckHttp))) = 1)
   \<and> (\<forall>f. reply (Stage2Handler f refusedStage2Env someConfig singleCheckHttp)
            = Returned \<lparr>code = 202, success = False, errorField = ''authorization_pending''\<rparr>)
   \<and> pollReply (authEnv timedOutStage2Env) 0 = PollTransportError timedOut
   \<and> (\<forall>f. code (case reply (Stage2Handler f timedOutStage2Env someConfig singleCheckHttp) of
                   Returned a \<Rightarrow> a | Panicked v \<Rightarrow> \<lparr>code = 0, success = False, errorField = []\<rparr>) = 500)
   \<and> pollReply (authEnv pendingStage2Env) 0 = PollResponse [] ''authorization_pending'' []
   \<and> result (AuthenticateStage2 (authEnv pendingStage2Env) 5 900 someConfig False)
       = Returned (Some (Wrap ''failed to check GitHub token: '' (AuthError ''authorization_pending'' None)))"
proof -
  have v: "s2Method singleCheckHttp = ''POST''" "s2Body singleCheckHttp = Complete ''{}''"
    "Email singleCheck \<noteq> []" "DeviceCode singleCheck \<noteq> []"
    "0 <s Interval singleCheck" "\<not> PollMode singleCheck"
    by (simp_all add: singleCheckHttp_def singleCheck_def word_sless_alt)
  have d: "decodeStage2 refusedStage2Env ''{}'' = Inr singleCheck"
    "decodeStage2 timedOutStage2Env ''{}'' = Inr singleCheck"
    "decodeStage2 pendingStage2Env ''{}'' = Inr singleCheck"
    by (simp_all add: refusedStage2Env_def timedOutStage2Env_def pendingStage2Env_def)
  have m: "isValidEmail (Email singleCheck)"
    by (simp add: singleCheck_def isValidEmail_def notAt_def notDot_def localChar_def domainChar_def
        isAlpha_def isDigit_def)
  have q: "pollReply (authEnv refusedStage2Env) 0 = PollTransportError refusedByProxy"
    "pollReply (authEnv timedOutStage2Env) 0 = PollTransportError timedOut"
    "pollReply (authEnv pendingStage2Env) 0 = PollResponse [] ''authorization_pending'' []"
    by (simp_all add: refusedStage2Env_def timedOutStage2Env_def pendingStage2Env_def failingAuthEnv_def)
  have i: "Interval singleCheck = 5" "ExpiresIn singleCheck = 900"
    by (simp_all add: singleCheck_def)
  have r: "reply (Stage2Handler f refusedStage2Env someConfig singleCheckHttp)
        = Returned \<lparr>code = 202, success = False, errorField = ''authorization_pending''\<rparr>
      \<and> length (filter isPoll (stage2Events (Stage2Handler f refusedStage2Env someConfig singleCheckHttp))) = 1" for f
    using stage2_single_check [OF v(1,2) d(1) v(3) m v(4,5,6), where f = f and cfg = someConfig
        and s = "''Post '' @ [CHR 0x22] @ ''https://github.com/login/oauth/access_token'' @ [CHR 0x22]
          @ '': authorization_pending''"] q(1)
    by (simp add: refusedByProxy_def)
  have t: "code (case reply (Stage2Handler f timedOutStage2Env someConfig singleCheckHttp) of
                   Returned a \<Rightarrow> a | Panicked v \<Rightarrow> \<lparr>code = 0, success = False, errorField = []\<rparr>) = 500" for f
    using stage2_single_check [OF v(1,2) d(2) v(3) m v(4,5,6), where f = f and cfg = someConfig
        and s = "''Post '' @ [CHR 0x22] @ ''https://github.com/login/oauth/access_token'' @ [CHR 0x22]
          @ '': dial tcp: i/o timeout''"] q(2)
    by (simp add: timedOut_def)
  have p: "result (AuthenticateStage2 (authEnv pendingStage2Env) 5 900 someConfig False)
       = Returned (Some (Wrap ''failed to check GitHub token: '' (AuthError ''authorization_pending'' None)))"
    using stage2_single_check [OF v(1,2) d(3) v(3) m v(4,5,6), where cfg = someConfig
        and tok = "[]" and desc = "[]"] q(3) i
    by simp
  show ?thesis
    using v d(1) m q r t p by simp
qed

end
